theory Spec2Isabelle
  imports Main
begin

section \<open>Types, scalar values and diagnostics\<close>

text \<open>
  The folder of \<^verbatim>\<open>lib/evaluate/fold.cc\<close> is a family of C++ templates over the result
  type \<^verbatim>\<open>T = Type<CATEGORY, KIND>\<close>.  The embedding uses one expression datatype in
  which every node carries its \<^verbatim>\<open>T\<close> as a tag, and every \<^verbatim>\<open>if constexpr\<close> on \<^verbatim>\<open>T\<close>
  becomes a test of the tag.
\<close>

datatype TypeCategory = Integer | Real | Complex | Character | Logical

datatype DynamicType = Type (category: TypeCategory) (kind: nat)

abbreviation SubscriptInteger :: DynamicType where
  "SubscriptInteger \<equiv> Type Integer 8"

abbreviation Int4 :: DynamicType where
  "Int4 \<equiv> Type Integer 4"

datatype Ordering = Less | Equal | Greater

datatype Relation = RelationLess | RelationEqual | RelationGreater | Unordered

text \<open>
  Modelled from the spec: \<^verbatim>\<open>Scalar<Type<Real, KIND>>\<close> (\<^verbatim>\<open>real.h\<close> is not under
  \<^verbatim>\<open>src/\<close>).  Section 4.1 gives \<^verbatim>\<open>IsNotANumber\<close> and a \<^verbatim>\<open>Compare\<close> with the four
  results \<^verbatim>\<open>Less, Equal, Greater, Unordered\<close>; only what these two observe is kept: a
  value is a NaN, or a number that is ordered like the integer standing for it.
  Rounded arithmetic on reals is outside the model.
\<close>

datatype RealScalar = NotANumber | Number int

fun IsNotANumber :: "RealScalar \<Rightarrow> bool" where
  "IsNotANumber NotANumber = True"
| "IsNotANumber (Number x) = False"

fun Compare :: "RealScalar \<Rightarrow> RealScalar \<Rightarrow> Relation" where
  "Compare (Number x) (Number y) =
     (if x < y then RelationLess else if x = y then RelationEqual else RelationGreater)"
| "Compare NotANumber y = Unordered"
| "Compare (Number x) NotANumber = Unordered"

text \<open>
  A scalar value of one of the modelled categories.  A character value is the
  sequence of its code units.
\<close>

datatype Scalar =
    IntegerValue int
  | RealValue RealScalar
  | CharacterValue "nat list"
  | LogicalValue bool

text \<open>
  Modelled from the spec: \<^verbatim>\<open>Scalar<Type<Integer, KIND>>\<close> (\<^verbatim>\<open>integer.h\<close> is not under
  \<^verbatim>\<open>src/\<close>).  Section 4.1: two's-complement signed integers of \<open>8 * KIND\<close> bits whose
  arithmetic returns the wrapped value together with an overflow flag.
\<close>

definition bits :: "nat \<Rightarrow> nat" where
  "bits k = 8 * k"

definition wrap :: "nat \<Rightarrow> int \<Rightarrow> int" where
  "wrap k v = (v + 2 ^ (bits k - 1)) mod 2 ^ bits k - 2 ^ (bits k - 1)"

definition AddSigned :: "nat \<Rightarrow> int \<Rightarrow> int \<Rightarrow> int \<times> bool" where
  "AddSigned k a b = (wrap k (a + b), wrap k (a + b) \<noteq> a + b)"

definition SubtractSigned :: "nat \<Rightarrow> int \<Rightarrow> int \<Rightarrow> int \<times> bool" where
  "SubtractSigned k a b = (wrap k (a - b), wrap k (a - b) \<noteq> a - b)"

definition MultiplySigned :: "nat \<Rightarrow> int \<Rightarrow> int \<Rightarrow> int \<times> bool" where
  "MultiplySigned k a b = (wrap k (a * b), wrap k (a * b) \<noteq> a * b)"

definition NegateSigned :: "nat \<Rightarrow> int \<Rightarrow> int \<times> bool" where
  "NegateSigned k a = (wrap k (- a), wrap k (- a) \<noteq> - a)"

definition ABS :: "nat \<Rightarrow> int \<Rightarrow> int \<times> bool" where
  "ABS k a = (wrap k \<bar>a\<bar>, wrap k \<bar>a\<bar> \<noteq> \<bar>a\<bar>)"

definition DIM :: "nat \<Rightarrow> int \<Rightarrow> int \<Rightarrow> int" where
  "DIM k a b = (if b < a then wrap k (a - b) else 0)"

definition ConvertSigned :: "nat \<Rightarrow> int \<Rightarrow> int \<times> bool" where
  "ConvertSigned k v = (wrap k v, wrap k v \<noteq> v)"

definition CompareSigned :: "int \<Rightarrow> int \<Rightarrow> Ordering" where
  "CompareSigned a b = (if a < b then Less else if a = b then Equal else Greater)"

text \<open>
  Modelled from the spec: \<^verbatim>\<open>Compare\<close> on character values (\<^verbatim>\<open>character.h\<close> is not
  under \<^verbatim>\<open>src/\<close>); section 4.1 calls it a three-way lexical comparison.
\<close>

fun CompareCharacter :: "nat list \<Rightarrow> nat list \<Rightarrow> Ordering" where
  "CompareCharacter [] [] = Equal"
| "CompareCharacter [] (y # ys) = Less"
| "CompareCharacter (x # xs) [] = Greater"
| "CompareCharacter (x # xs) (y # ys) =
     (if x < y then Less else if y < x then Greater else CompareCharacter xs ys)"

text \<open>
  The bitwise member functions of \<^verbatim>\<open>Scalar<T>\<close> that the integer intrinsics select
  through the member pointer \<^verbatim>\<open>fptr\<close>.
\<close>

datatype IntegerFn = IAND | IOR | IEOR | IBCLR | IBSET | ISHFT | SHIFTA | SHIFTR | SHIFTL

text \<open>
  A diagnostic is kept unformatted: whether the format string was declared with
  \<^verbatim>\<open>_err_en_US\<close> (an error) or \<^verbatim>\<open>_en_US\<close>, the format string, and its arguments.
\<close>

datatype MessageArg = IntArg int | StrArg string

datatype Message = Message (isFatal: bool) (formatString: string) (formatArguments: "MessageArg list")

text \<open>
  Modelled from the spec: \<^verbatim>\<open>FoldingContext\<close> (\<^verbatim>\<open>common.h\<close> is not under \<^verbatim>\<open>src/\<close>).
  Section 5: an append-only message sink and the implied-DO index map with
  \<^verbatim>\<open>StartImpliedDo(name, value)\<close> and \<^verbatim>\<open>EndImpliedDo(name)\<close>.  The rounding mode, the
  subnormal flag and the host library only matter to real arithmetic.
\<close>

record FoldingContext =
  messages :: "Message list"
  impliedDos :: "string \<rightharpoonup> int"

definition Say :: "Message \<Rightarrow> FoldingContext \<Rightarrow> FoldingContext" where
  "Say m ctx = ctx\<lparr>messages := messages ctx @ [m]\<rparr>"

definition GetImpliedDo :: "FoldingContext \<Rightarrow> string \<Rightarrow> int option" where
  "GetImpliedDo ctx name = impliedDos ctx name"

definition StartImpliedDo :: "string \<Rightarrow> int \<Rightarrow> FoldingContext \<Rightarrow> FoldingContext" where
  "StartImpliedDo name n ctx = ctx\<lparr>impliedDos := (impliedDos ctx)(name \<mapsto> n)\<rparr>"

definition EndImpliedDo :: "string \<Rightarrow> FoldingContext \<Rightarrow> FoldingContext" where
  "EndImpliedDo name ctx = ctx\<lparr>impliedDos := (impliedDos ctx)(name := None)\<rparr>"

text \<open>
  How a call can end without a value: \<^verbatim>\<open>common::die\<close> and a failed \<^verbatim>\<open>CHECK\<close> abort
  the process; \<open>UndefinedBehaviour\<close> is an operation that C++ leaves undefined, such
  as an addition of two \<^verbatim>\<open>std::int64_t\<close> whose sum is not one; \<open>OutOfFuel\<close> is the
  recursion bound of the model; \<open>Unmodelled\<close> marks a path of the source that needs
  code outside the model; \<open>IllTyped\<close> marks a tree that the C++ type system cannot
  build.
\<close>

datatype error =
  Die string | CheckFailed string | UndefinedBehaviour string | OutOfFuel | Unmodelled string |
  IllTyped

text \<open>The values of a \<^verbatim>\<open>std::int64_t\<close>.\<close>

definition Int64 :: "int \<Rightarrow> bool" where
  "Int64 v = (- (2 ^ 63) \<le> v \<and> v < 2 ^ 63)"

definition andThen :: "error + 'a \<Rightarrow> ('a \<Rightarrow> error + 'b) \<Rightarrow> error + 'b" where
  "andThen m f = (case m of Inl e \<Rightarrow> Inl e | Inr x \<Rightarrow> f x)"

section \<open>Expressions\<close>

text \<open>
  Modelled from the spec: \<^verbatim>\<open>Symbol\<close> (\<^verbatim>\<open>semantics/symbol.h\<close> is not under \<^verbatim>\<open>src/\<close>).
  A symbol is its name and its declared extents, one per dimension, \<open>None\<close> where
  the extent is not known.
\<close>

datatype Symbol = Symbol (symbolName: string) (symbolExtents: "int option list")

text \<open>
  \<^verbatim>\<open>ProcedureDesignator\<close>: a specific intrinsic, identified by its lowercase name, or a
  user procedure; both with the rank of the result.
\<close>

datatype ProcedureDesignator =
    SpecificIntrinsic string int
  | ProcedureSymbol string int

datatype SubstringParent = ParentDataRef Symbol | ParentStatic "nat list"

text \<open>
  \<^verbatim>\<open>Expr<T>\<close> of \<^verbatim>\<open>expression.h\<close>.  \<open>Constant T values shape\<close> holds the elements in
  array element order; a scalar has the empty shape and one element.  The modelled
  operations are \<^verbatim>\<open>Parentheses, Negate, Convert, Add, Subtract, Multiply, Extremum\<close>.
\<close>

datatype Expr =
    Constant DynamicType "Scalar list" "int list"
  | Designator DynamicType DesignatorU
  | FunctionRef DynamicType ProcedureDesignator "Expr option list"
  | ArrayConstructor DynamicType "ArrayConstructorValue list"
  | ImpliedDoIndex string
  | Parentheses DynamicType Expr
  | Negate DynamicType Expr
  | Convert DynamicType Expr
  | Add DynamicType Expr Expr
  | Subtract DynamicType Expr Expr
  | Multiply DynamicType Expr Expr
  | Extremum DynamicType Ordering Expr Expr
and DesignatorU =
    SymbolRef Symbol
  | SubstringRef Substring
and Substring =
    Substring SubstringParent "Expr option" "Expr option"
and ArrayConstructorValue =
    ACExpr Expr
  | ImpliedDo string Expr Expr Expr "ArrayConstructorValue list"

text \<open>
  Members of classes that are not under \<^verbatim>\<open>src/\<close> and that the spec does not
  describe are parameters of the folder: \<^verbatim>\<open>Substring::Fold\<close> and \<^verbatim>\<open>Substring::LEN\<close>
  (\<^verbatim>\<open>variable.cc\<close>), and the bitwise member functions of \<^verbatim>\<open>Scalar<Integer>\<close>, called
  with the kind, the receiver and the argument.
\<close>

record Externals =
  Substring_Fold :: "FoldingContext \<Rightarrow> Substring \<Rightarrow> Expr option \<times> Substring \<times> FoldingContext"
  Substring_LEN :: "Substring \<Rightarrow> Expr"
  IntegerMember :: "IntegerFn \<Rightarrow> nat \<Rightarrow> int \<Rightarrow> int \<Rightarrow> int"

section \<open>Inspecting expressions\<close>

fun GetType :: "Expr \<Rightarrow> DynamicType" where
  "GetType (Constant T vs sh) = T"
| "GetType (Designator T d) = T"
| "GetType (FunctionRef T proc args) = T"
| "GetType (ArrayConstructor T xs) = T"
| "GetType (ImpliedDoIndex name) = SubscriptInteger"
| "GetType (Parentheses T x) = T"
| "GetType (Negate T x) = T"
| "GetType (Convert T x) = T"
| "GetType (Add T x y) = T"
| "GetType (Subtract T x y) = T"
| "GetType (Multiply T x y) = T"
| "GetType (Extremum T ordr x y) = T"

text \<open>
  \<^verbatim>\<open>ExpressionBase::Rank\<close> of \<^verbatim>\<open>expression.cc\<close> visits the alternative; an operation
  takes the larger rank of its operands (\<^verbatim>\<open>Operation::Rank\<close>), an array constructor
  has rank 1 and an implied-DO index rank 0.  Modelled from the spec: the rank of a
  designator is the number of extents of its symbol and the rank of a function
  reference is the rank recorded in its procedure designator (\<^verbatim>\<open>variable.cc\<close> and
  \<^verbatim>\<open>call.cc\<close> are not under \<^verbatim>\<open>src/\<close>).
\<close>

fun RankParent :: "SubstringParent \<Rightarrow> int" where
  "RankParent (ParentDataRef s) = int (length (symbolExtents s))"
| "RankParent (ParentStatic str) = 0"

fun RankDesignator :: "DesignatorU \<Rightarrow> int" where
  "RankDesignator (SymbolRef s) = int (length (symbolExtents s))"
| "RankDesignator (SubstringRef (Substring parent lower upper)) = RankParent parent"

fun RankProcedure :: "ProcedureDesignator \<Rightarrow> int" where
  "RankProcedure (SpecificIntrinsic name r) = r"
| "RankProcedure (ProcedureSymbol name r) = r"

fun Rank :: "Expr \<Rightarrow> int" where
  "Rank (Constant T vs sh) = int (length sh)"
| "Rank (Designator T d) = RankDesignator d"
| "Rank (FunctionRef T proc args) = RankProcedure proc"
| "Rank (ArrayConstructor T xs) = 1"
| "Rank (ImpliedDoIndex name) = 0"
| "Rank (Parentheses T x) = Rank x"
| "Rank (Negate T x) = Rank x"
| "Rank (Convert T x) = Rank x"
| "Rank (Add T x y) = max (Rank x) (Rank y)"
| "Rank (Subtract T x y) = max (Rank x) (Rank y)"
| "Rank (Multiply T x y) = max (Rank x) (Rank y)"
| "Rank (Extremum T ordr x y) = max (Rank x) (Rank y)"

text \<open>
  Modelled from the spec: \<^verbatim>\<open>GetScalarConstantValue\<close> and \<^verbatim>\<open>ToInt64\<close> on one kind
  (\<^verbatim>\<open>fold.h\<close> and \<^verbatim>\<open>tools.h\<close> are not under \<^verbatim>\<open>src/\<close>).  Section 4.3, step 3, takes an
  operand for a constant when it is a \<^verbatim>\<open>Constant<T>\<close>, and section 6 calls \<^verbatim>\<open>ToInt64\<close>
  the extractor from a folded scalar integer constant.
\<close>

fun GetScalarConstantValue :: "Expr \<Rightarrow> Scalar option" where
  "GetScalarConstantValue (Constant T [v] []) = Some v"
| "GetScalarConstantValue e = None"

fun ToInt64 :: "Expr \<Rightarrow> int option" where
  "ToInt64 (Constant T [IntegerValue i] []) = Some i"
| "ToInt64 e = None"

definition OperandsAreConstants :: "Expr \<Rightarrow> Expr \<Rightarrow> (Scalar \<times> Scalar) option" where
  "OperandsAreConstants x y =
     (case GetScalarConstantValue x of
        Some xvalue \<Rightarrow>
          (case GetScalarConstantValue y of
             Some yvalue \<Rightarrow> Some (xvalue, yvalue)
           | None \<Rightarrow> None)
      | None \<Rightarrow> None)"

text \<open>
  \<^verbatim>\<open>IsExpandableScalar\<close> returns the result of \<^verbatim>\<open>UnexpandabilityFindingVisitor\<close> as it
  is.  The visitor starts with the result \<^verbatim>\<open>false\<close> and returns \<^verbatim>\<open>true\<close> from the
  handler of a \<^verbatim>\<open>FunctionRef\<close>; the handler for \<^verbatim>\<open>CoarrayRef\<close> has no counterpart
  here, the model having no coarray references.
\<close>

fun UnexpandabilityFound :: "Expr \<Rightarrow> bool"
  and UnexpandabilityFoundIn :: "ArrayConstructorValue list \<Rightarrow> bool" where
  "UnexpandabilityFound (Constant T vs sh) = False"
| "UnexpandabilityFound (Designator T (SymbolRef s)) = False"
| "UnexpandabilityFound (Designator T (SubstringRef (Substring parent lower upper))) =
     ((case lower of Some e \<Rightarrow> UnexpandabilityFound e | None \<Rightarrow> False) \<or>
      (case upper of Some e \<Rightarrow> UnexpandabilityFound e | None \<Rightarrow> False))"
| "UnexpandabilityFound (FunctionRef T proc args) = True"
| "UnexpandabilityFound (ArrayConstructor T xs) = UnexpandabilityFoundIn xs"
| "UnexpandabilityFound (ImpliedDoIndex name) = False"
| "UnexpandabilityFound (Parentheses T x) = UnexpandabilityFound x"
| "UnexpandabilityFound (Negate T x) = UnexpandabilityFound x"
| "UnexpandabilityFound (Convert T x) = UnexpandabilityFound x"
| "UnexpandabilityFound (Add T x y) = (UnexpandabilityFound x \<or> UnexpandabilityFound y)"
| "UnexpandabilityFound (Subtract T x y) = (UnexpandabilityFound x \<or> UnexpandabilityFound y)"
| "UnexpandabilityFound (Multiply T x y) = (UnexpandabilityFound x \<or> UnexpandabilityFound y)"
| "UnexpandabilityFound (Extremum T ordr x y) =
     (UnexpandabilityFound x \<or> UnexpandabilityFound y)"
| "UnexpandabilityFoundIn [] = False"
| "UnexpandabilityFoundIn (ACExpr e # xs) =
     (UnexpandabilityFound e \<or> UnexpandabilityFoundIn xs)"
| "UnexpandabilityFoundIn (ImpliedDo name lower upper stride body # xs) =
     (UnexpandabilityFound lower \<or> UnexpandabilityFound upper \<or> UnexpandabilityFound stride \<or>
      UnexpandabilityFoundIn body \<or> UnexpandabilityFoundIn xs)"

definition IsExpandableScalar :: "Expr \<Rightarrow> bool" where
  "IsExpandableScalar expr = UnexpandabilityFound expr"

section \<open>Shapes\<close>

text \<open>
  \<^verbatim>\<open>shape.h\<close>: a \<^verbatim>\<open>Shape\<close> is a vector of optional extent expressions of type
  \<^verbatim>\<open>SubscriptInteger\<close>.
\<close>

type_synonym Shape = "Expr option list"

definition ExtentExpr :: "int \<Rightarrow> Expr" where
  "ExtentExpr n = Constant SubscriptInteger [IntegerValue n] []"

definition AsShape :: "int list \<Rightarrow> Shape" where
  "AsShape sh = map (\<lambda>n. Some (ExtentExpr n)) sh"

definition AllElementsPresent :: "'a option list \<Rightarrow> 'a list option" where
  "AllElementsPresent xs = (if list_all (\<lambda>x. x \<noteq> None) xs then Some (map the xs) else None)"

text \<open>
  Modelled from the spec: \<^verbatim>\<open>GetSize\<close>, \<^verbatim>\<open>AsConstantExtents\<close> and \<^verbatim>\<open>CheckConformance\<close>
  (\<^verbatim>\<open>shape.cc\<close> is not under \<^verbatim>\<open>src/\<close>).  \<^verbatim>\<open>shape.h\<close>: \<^verbatim>\<open>GetSize\<close> computes
  \<^verbatim>\<open>PRODUCT(shape)\<close>.  Section 4.6: \<^verbatim>\<open>CheckConformance(left, right)\<close> compares
  corresponding extents when both are known constants, emits a diagnostic on
  mismatch and returns false, else true; the glossary: two arrays conform when they
  have equal rank and equal extent in every dimension; section 7 reports
  non-conforming array operands as errors, and scenario 5 of section 8 gives the
  text of the diagnostic.
\<close>

definition GetSize :: "Shape \<Rightarrow> Expr option" where
  "GetSize shape =
     (case AllElementsPresent shape of
        Some extents \<Rightarrow> Some (foldl (Multiply SubscriptInteger) (ExtentExpr 1) extents)
      | None \<Rightarrow> None)"

definition AsConstantExtents :: "Shape \<Rightarrow> int list option" where
  "AsConstantExtents shape =
     (case AllElementsPresent shape of
        Some extents \<Rightarrow> AllElementsPresent (map ToInt64 extents)
      | None \<Rightarrow> None)"

fun ExtentsDiffer :: "Expr option \<times> Expr option \<Rightarrow> bool" where
  "ExtentsDiffer (Some l, Some r) =
     (case ToInt64 l of
        Some x \<Rightarrow> (case ToInt64 r of Some y \<Rightarrow> x \<noteq> y | None \<Rightarrow> False)
      | None \<Rightarrow> False)"
| "ExtentsDiffer (l, r) = False"

definition CheckConformance :: "FoldingContext \<Rightarrow> Shape \<Rightarrow> Shape \<Rightarrow> bool \<times> FoldingContext" where
  "CheckConformance ctx left right =
     (if length left = length right \<and> \<not> list_ex ExtentsDiffer (zip left right)
      then (True, ctx)
      else (False, Say (Message True ''shapes are not conformable'' []) ctx))"

text \<open>
  \<^verbatim>\<open>GetShapeHelper\<close> of \<^verbatim>\<open>shape.h\<close>.  A constant has its own shape; an operation has
  the shape of its right operand when that has positive rank, else of its left
  operand; an array constructor has one extent, the sum of the sizes of its
  elements, built with \<^verbatim>\<open>operator+\<close> on extent expressions.  The extent of an
  implied DO needs \<^verbatim>\<open>CountTrips\<close> and \<^verbatim>\<open>ContainsAnyImpliedDoIndex\<close>, and the shape of a
  function reference needs \<^verbatim>\<open>GetShape(const ProcedureRef &)\<close>; both are outside the
  model.  Modelled from the spec: the shape of a symbol is the list of its declared
  extents.
\<close>

definition GetShapeSymbol :: "Symbol \<Rightarrow> Shape" where
  "GetShapeSymbol s = map (map_option ExtentExpr) (symbolExtents s)"

fun GetShapeParent :: "SubstringParent \<Rightarrow> Shape" where
  "GetShapeParent (ParentDataRef s) = GetShapeSymbol s"
| "GetShapeParent (ParentStatic str) = []"

fun GetShapeDesignator :: "DesignatorU \<Rightarrow> Shape" where
  "GetShapeDesignator (SymbolRef s) = GetShapeSymbol s"
| "GetShapeDesignator (SubstringRef (Substring parent lower upper)) = GetShapeParent parent"

fun GetShape :: "Expr \<Rightarrow> error + Shape option"
  and GetExtent :: "ArrayConstructorValue list \<Rightarrow> Expr \<Rightarrow> error + Expr option" where
  "GetShape (Constant T vs sh) = Inr (Some (AsShape sh))"
| "GetShape (Designator T d) = Inr (Some (GetShapeDesignator d))"
| "GetShape (FunctionRef T proc args) = Inl (Unmodelled ''GetShape(ProcedureRef)'')"
| "GetShape (ArrayConstructor T xs) =
     andThen (GetExtent xs (ExtentExpr 0)) (\<lambda>extent. Inr (Some [extent]))"
| "GetShape (ImpliedDoIndex name) = Inr (Some [])"
| "GetShape (Parentheses T x) = GetShape x"
| "GetShape (Negate T x) = GetShape x"
| "GetShape (Convert T x) = GetShape x"
| "GetShape (Add T x y) = (if 0 < Rank y then GetShape y else GetShape x)"
| "GetShape (Subtract T x y) = (if 0 < Rank y then GetShape y else GetShape x)"
| "GetShape (Multiply T x y) = (if 0 < Rank y then GetShape y else GetShape x)"
| "GetShape (Extremum T ordr x y) = (if 0 < Rank y then GetShape y else GetShape x)"
| "GetExtent [] result = Inr (Some result)"
| "GetExtent (ACExpr x # xs) result =
     andThen (GetShape x) (\<lambda>xShape.
       case xShape of
         None \<Rightarrow> Inr None
       | Some s \<Rightarrow>
           (case GetSize s of
              None \<Rightarrow> Inr None
            | Some n \<Rightarrow> GetExtent xs (Add SubscriptInteger result n)))"
| "GetExtent (ImpliedDo name lower upper stride body # xs) result =
     Inl (Unmodelled ''GetExtent(ImpliedDo)'')"

section \<open>The folder\<close>

text \<open>
  \<^verbatim>\<open>Fold\<close> and the \<^verbatim>\<open>FoldOperation\<close> overloads of \<^verbatim>\<open>fold.cc\<close> call each other.  Each
  overload is defined here with the function it calls for \<^verbatim>\<open>Fold\<close> as its first
  argument \<open>self\<close>; the recursion is closed at the end of the section.  The folding
  context is passed in and returned.
\<close>

type_synonym Folder = "FoldingContext \<Rightarrow> Expr \<Rightarrow> error + Expr \<times> FoldingContext"

text \<open>
  The no-op base case of \<^verbatim>\<open>FoldOperation\<close> (the first template of \<^verbatim>\<open>fold.cc\<close>).  It is
  the overload that a call \<^verbatim>\<open>FoldOperation(context, x)\<close> with \<^verbatim>\<open>x\<close> of a type
  \<^verbatim>\<open>Expr<A>\<close> resolves to, every other overload of the file taking one alternative
  of an expression, not an expression.
\<close>

definition FoldOperation :: "FoldingContext \<Rightarrow> Expr \<Rightarrow> Expr" where
  "FoldOperation ctx x = x"

subsection \<open>Array constructors\<close>

text \<open>
  \<^verbatim>\<open>ArrayConstructorFolder\<close> holds a copy of the context and the vector
  \<^verbatim>\<open>elements_\<close>; its private \<^verbatim>\<open>FoldArray\<close> overloads return whether the walk is still
  succeeding.
\<close>

type_synonym FolderState = "FoldingContext \<times> Scalar list"

text \<open>
  An element: a clone is folded, and when the result is a constant its elements are
  appended in array element order, which is the order of the constant's own vector.
\<close>

definition FoldArray_Expr :: "Folder \<Rightarrow> FolderState \<Rightarrow> Expr \<Rightarrow> error + bool \<times> FolderState" where
  "FoldArray_Expr self st expr =
     andThen (self (fst st) expr) (\<lambda>(folded, ctx).
       case folded of
         Constant T vs sh \<Rightarrow> Inr (True, (ctx, snd st @ vs))
       | _ \<Rightarrow> Inr (False, (ctx, snd st)))"

text \<open>
  The two loops \<^verbatim>\<open>for (; j <= *end; j += *step)\<close> and \<^verbatim>\<open>for (; j >= *end; j += *step)\<close>
  of \<^verbatim>\<open>FoldArray(const ImpliedDo<T> &)\<close>.  \<^verbatim>\<open>j\<close> is a reference to the entry of the
  index in the context, so the body sees the current value and \<^verbatim>\<open>j += *step\<close>
  stores the next one.  \<^verbatim>\<open>j\<close> and \<^verbatim>\<open>*step\<close> are \<^verbatim>\<open>std::int64_t\<close>: when their sum is not
  one, \<^verbatim>\<open>j += *step\<close> is undefined and the model stops there.  A failed iteration
  clears \<^verbatim>\<open>result\<close> and the loop goes on.  The source enters the loops with a step
  that is not zero.
\<close>

function ImpliedDoLoop ::
  "(FolderState \<Rightarrow> error + bool \<times> FolderState) \<Rightarrow> string \<Rightarrow> int \<Rightarrow> int \<Rightarrow> int \<Rightarrow> bool \<Rightarrow>
   FolderState \<Rightarrow> error + bool \<times> FolderState" where
  "ImpliedDoLoop body name end step j result st =
     (if (if 0 < step then j \<le> end else step < 0 \<and> end \<le> j) then
        (case body st of
           Inl e \<Rightarrow> Inl e
         | Inr (ok, (ctx, elements)) \<Rightarrow>
             if Int64 (j + step) then
               ImpliedDoLoop body name end step (j + step) (result \<and> ok)
                 (StartImpliedDo name (j + step) ctx, elements)
             else Inl (UndefinedBehaviour ''j += *step''))
      else Inr (result, st))"
  by pat_completeness auto
termination
  by (relation "measure (\<lambda>(body, name, end, step, j, result, st).
        if 0 < step then nat (end - j + 1) else nat (j - end + 1))") auto

definition FoldArray_ImpliedDo ::
  "Folder \<Rightarrow> string \<Rightarrow> Expr \<Rightarrow> Expr \<Rightarrow> Expr \<Rightarrow> (FolderState \<Rightarrow> error + bool \<times> FolderState) \<Rightarrow>
   FolderState \<Rightarrow> error + bool \<times> FolderState" where
  "FoldArray_ImpliedDo self name lower upper stride body st =
     andThen (self (fst st) lower) (\<lambda>(lower', ctx1).
     andThen (self ctx1 upper) (\<lambda>(upper', ctx2).
     andThen (self ctx2 stride) (\<lambda>(stride', ctx3).
       case ToInt64 lower' of
         None \<Rightarrow> Inr (False, (ctx3, snd st))
       | Some start \<Rightarrow>
           (case ToInt64 upper' of
              None \<Rightarrow> Inr (False, (ctx3, snd st))
            | Some end \<Rightarrow>
                (case ToInt64 stride' of
                   None \<Rightarrow> Inr (False, (ctx3, snd st))
                 | Some step \<Rightarrow>
                     if step = 0 then Inr (False, (ctx3, snd st))
                     else
                       andThen
                         (ImpliedDoLoop body name end step start True
                            (StartImpliedDo name start ctx3, snd st))
                         (\<lambda>(result, (ctx4, elements)).
                            Inr (result, (EndImpliedDo name ctx4, elements))))))))"

fun FoldArray_Value ::
    "Folder \<Rightarrow> FolderState \<Rightarrow> ArrayConstructorValue \<Rightarrow> error + bool \<times> FolderState"
  and FoldArray_Values ::
    "Folder \<Rightarrow> FolderState \<Rightarrow> ArrayConstructorValue list \<Rightarrow> error + bool \<times> FolderState" where
  "FoldArray_Value self st (ACExpr expr) = FoldArray_Expr self st expr"
| "FoldArray_Value self st (ImpliedDo name lower upper stride body) =
     FoldArray_ImpliedDo self name lower upper stride (\<lambda>st'. FoldArray_Values self st' body) st"
| "FoldArray_Values self st [] = Inr (True, st)"
| "FoldArray_Values self st (x # xs) =
     (case FoldArray_Value self st x of
        Inl e \<Rightarrow> Inl e
      | Inr (ok, st') \<Rightarrow> if ok then FoldArray_Values self st' xs else Inr (False, st'))"

text \<open>
  \<^verbatim>\<open>ArrayConstructorFolder::FoldArray(ArrayConstructor<T> &&)\<close> and the
  \<^verbatim>\<open>FoldOperation\<close> overload that calls it.  The folder works on its own copy of the
  context; the diagnostics go to the sink that the copy shares with the caller.
  The character branch needs the length expression of the constructor, which the
  model does not hold.
\<close>

definition FoldOperation_ArrayConstructor ::
  "Folder \<Rightarrow> FoldingContext \<Rightarrow> DynamicType \<Rightarrow> ArrayConstructorValue list \<Rightarrow>
   error + Expr \<times> FoldingContext" where
  "FoldOperation_ArrayConstructor self ctx T array =
     andThen (FoldArray_Values self (ctx, []) array) (\<lambda>(ok, (folderCtx, elements)).
       if ok then
         (if category T = Character then Inl (Unmodelled ''ArrayConstructor<Character>'')
          else Inr (Constant T elements [int (length elements)],
                    ctx\<lparr>messages := messages folderCtx\<rparr>))
       else Inr (ArrayConstructor T array, ctx\<lparr>messages := messages folderCtx\<rparr>))"

subsection \<open>Elementwise application\<close>

fun ArrayConstructorIsFlat :: "ArrayConstructorValue list \<Rightarrow> bool" where
  "ArrayConstructorIsFlat [] = True"
| "ArrayConstructorIsFlat (ACExpr e # xs) = ArrayConstructorIsFlat xs"
| "ArrayConstructorIsFlat (ImpliedDo name lower upper stride body # xs) = False"

fun AsFlatArrayConstructor :: "Expr \<Rightarrow> Expr option" where
  "AsFlatArrayConstructor (Constant T vs sh) =
     Some (ArrayConstructor T (map (\<lambda>v. ACExpr (Constant T [v] [])) vs))"
| "AsFlatArrayConstructor (ArrayConstructor T xs) =
     (if ArrayConstructorIsFlat xs then Some (ArrayConstructor T xs) else None)"
| "AsFlatArrayConstructor (Parentheses T x) = AsFlatArrayConstructor x"
| "AsFlatArrayConstructor e = None"

text \<open>
  \<^verbatim>\<open>FromArrayConstructor\<close>: the constructor is folded, and a constant result takes the
  supplied shape.  For another result the source checks the shape of the result
  through \<^verbatim>\<open>AsConstantShape\<close>; where the extents of the result are not constants
  already, that check is outside the model.
\<close>

definition FromArrayConstructor ::
  "Folder \<Rightarrow> FoldingContext \<Rightarrow> DynamicType \<Rightarrow> ArrayConstructorValue list \<Rightarrow> int list option \<Rightarrow>
   error + Expr \<times> FoldingContext" where
  "FromArrayConstructor self ctx T values shape =
     andThen (self ctx (ArrayConstructor T values)) (\<lambda>(result, ctx1).
       case shape of
         None \<Rightarrow> Inr (result, ctx1)
       | Some sh \<Rightarrow>
           (case result of
              Constant T' vs sh' \<Rightarrow> Inr (Constant T' vs sh, ctx1)
            | _ \<Rightarrow>
                andThen (GetShape result) (\<lambda>resultShape.
                  case resultShape of
                    None \<Rightarrow> Inl (CheckFailed ''resultShape.has_value()'')
                  | Some rs \<Rightarrow>
                      (case AsConstantExtents rs of
                         None \<Rightarrow> Inl (Unmodelled ''AsConstantShape'')
                       | Some cs \<Rightarrow>
                           if sh = cs then Inr (result, ctx1)
                           else Inl (CheckFailed
                             ''*shape == AsConstantExtents(*constantShape)'')))))"

text \<open>
  The elements of a flat array constructor, read as the source reads them with
  \<^verbatim>\<open>std::get\<close>, which throws at another alternative.
\<close>

fun FlatElements :: "ArrayConstructorValue list \<Rightarrow> error + Expr list" where
  "FlatElements [] = Inr []"
| "FlatElements (ACExpr e # xs) = andThen (FlatElements xs) (\<lambda>es. Inr (e # es))"
| "FlatElements (ImpliedDo name lower upper stride body # xs) = Inl (Die ''bad_variant_access'')"

fun ArrayConstructorOf :: "Expr \<Rightarrow> error + Expr list" where
  "ArrayConstructorOf (ArrayConstructor T xs) = FlatElements xs"
| "ArrayConstructorOf e = Inl (Die ''bad_variant_access'')"

text \<open>
  \<^verbatim>\<open>MapOperation\<close>, one definition per overload.  Every new element is passed to
  \<^verbatim>\<open>FoldOperation\<close> as an expression, and the constructor that holds them is folded
  by \<^verbatim>\<open>FromArrayConstructor\<close>.  In the array-array overload the right iterator is
  checked before each element of the left array; elements of the right array beyond
  the length of the left one are not read.
\<close>

definition MapOperation_unary ::
  "Folder \<Rightarrow> FoldingContext \<Rightarrow> DynamicType \<Rightarrow> (Expr \<Rightarrow> Expr) \<Rightarrow> Shape \<Rightarrow> Expr \<Rightarrow>
   error + Expr \<times> FoldingContext" where
  "MapOperation_unary self ctx TR f shape values =
     andThen (ArrayConstructorOf values) (\<lambda>scalars.
       FromArrayConstructor self ctx TR
         (map (\<lambda>scalar. ACExpr (FoldOperation ctx (f scalar))) scalars)
         (AsConstantExtents shape))"

fun PairElements ::
  "FoldingContext \<Rightarrow> (Expr \<Rightarrow> Expr \<Rightarrow> Expr) \<Rightarrow> Expr list \<Rightarrow> Expr list \<Rightarrow>
   error + ArrayConstructorValue list" where
  "PairElements ctx f [] rights = Inr []"
| "PairElements ctx f (leftScalar # lefts) [] =
     Inl (CheckFailed ''rightIter != rightArrConst.end()'')"
| "PairElements ctx f (leftScalar # lefts) (rightScalar # rights) =
     andThen (PairElements ctx f lefts rights) (\<lambda>rest.
       Inr (ACExpr (FoldOperation ctx (f leftScalar rightScalar)) # rest))"

definition MapOperation_array_array ::
  "Folder \<Rightarrow> FoldingContext \<Rightarrow> DynamicType \<Rightarrow> (Expr \<Rightarrow> Expr \<Rightarrow> Expr) \<Rightarrow> Shape \<Rightarrow> Expr \<Rightarrow> Expr \<Rightarrow>
   error + Expr \<times> FoldingContext" where
  "MapOperation_array_array self ctx TR f shape leftValues rightValues =
     andThen (ArrayConstructorOf leftValues) (\<lambda>lefts.
     andThen (ArrayConstructorOf rightValues) (\<lambda>rights.
     andThen (PairElements ctx f lefts rights) (\<lambda>result.
       FromArrayConstructor self ctx TR result (AsConstantExtents shape))))"

definition MapOperation_array_scalar ::
  "Folder \<Rightarrow> FoldingContext \<Rightarrow> DynamicType \<Rightarrow> (Expr \<Rightarrow> Expr \<Rightarrow> Expr) \<Rightarrow> Shape \<Rightarrow> Expr \<Rightarrow> Expr \<Rightarrow>
   error + Expr \<times> FoldingContext" where
  "MapOperation_array_scalar self ctx TR f shape leftValues rightScalar =
     andThen (ArrayConstructorOf leftValues) (\<lambda>lefts.
       FromArrayConstructor self ctx TR
         (map (\<lambda>leftScalar. ACExpr (FoldOperation ctx (f leftScalar rightScalar))) lefts)
         (AsConstantExtents shape))"

definition MapOperation_scalar_array ::
  "Folder \<Rightarrow> FoldingContext \<Rightarrow> DynamicType \<Rightarrow> (Expr \<Rightarrow> Expr \<Rightarrow> Expr) \<Rightarrow> Shape \<Rightarrow> Expr \<Rightarrow> Expr \<Rightarrow>
   error + Expr \<times> FoldingContext" where
  "MapOperation_scalar_array self ctx TR f shape leftScalar rightValues =
     andThen (ArrayConstructorOf rightValues) (\<lambda>rights.
       FromArrayConstructor self ctx TR
         (map (\<lambda>rightScalar. ACExpr (FoldOperation ctx (f leftScalar rightScalar))) rights)
         (AsConstantExtents shape))"

text \<open>
  \<^verbatim>\<open>ApplyElementwise\<close> folds the operands of the operation in place and returns the
  lifted array when there is one.  The model returns the folded operands too, since
  the caller goes on with the operation it passed by reference.
\<close>

definition ApplyElementwise_unary ::
  "Folder \<Rightarrow> FoldingContext \<Rightarrow> DynamicType \<Rightarrow> (Expr \<Rightarrow> Expr) \<Rightarrow> Expr \<Rightarrow>
   error + Expr option \<times> Expr \<times> FoldingContext" where
  "ApplyElementwise_unary self ctx TR f operand =
     andThen (self ctx operand) (\<lambda>(expr, ctx1).
       if 0 < Rank expr then
         andThen (GetShape expr) (\<lambda>shape.
           case shape of
             None \<Rightarrow> Inr (None, expr, ctx1)
           | Some sh \<Rightarrow>
               (case AsFlatArrayConstructor expr of
                  None \<Rightarrow> Inr (None, expr, ctx1)
                | Some values \<Rightarrow>
                    andThen (MapOperation_unary self ctx1 TR f sh values) (\<lambda>(array, ctx2).
                      Inr (Some array, expr, ctx2))))
       else Inr (None, expr, ctx1))"

definition ApplyElementwise_binary ::
  "Folder \<Rightarrow> FoldingContext \<Rightarrow> DynamicType \<Rightarrow> (Expr \<Rightarrow> Expr \<Rightarrow> Expr) \<Rightarrow> Expr \<Rightarrow> Expr \<Rightarrow>
   error + Expr option \<times> Expr \<times> Expr \<times> FoldingContext" where
  "ApplyElementwise_binary self ctx TR f left right =
     andThen (self ctx left) (\<lambda>(leftExpr, ctx1).
     andThen (self ctx1 right) (\<lambda>(rightExpr, ctx2).
       if 0 < Rank leftExpr then
         andThen (GetShape leftExpr) (\<lambda>leftShape.
           case leftShape of
             None \<Rightarrow> Inr (None, leftExpr, rightExpr, ctx2)
           | Some lsh \<Rightarrow>
               (case AsFlatArrayConstructor leftExpr of
                  None \<Rightarrow> Inr (None, leftExpr, rightExpr, ctx2)
                | Some leftValues \<Rightarrow>
                    if 0 < Rank rightExpr then
                      andThen (GetShape rightExpr) (\<lambda>rightShape.
                        case rightShape of
                          None \<Rightarrow> Inr (None, leftExpr, rightExpr, ctx2)
                        | Some rsh \<Rightarrow>
                            (case AsFlatArrayConstructor rightExpr of
                               None \<Rightarrow> Inr (None, leftExpr, rightExpr, ctx2)
                             | Some rightValues \<Rightarrow>
                                 (case CheckConformance ctx2 lsh rsh of
                                    (conforms, ctx3) \<Rightarrow>
                                      andThen
                                        (MapOperation_array_array self ctx3 TR f lsh
                                           leftValues rightValues)
                                        (\<lambda>(array, ctx4).
                                           Inr (Some array, leftExpr, rightExpr, ctx4)))))
                    else if IsExpandableScalar rightExpr then
                      andThen
                        (MapOperation_array_scalar self ctx2 TR f lsh leftValues rightExpr)
                        (\<lambda>(array, ctx3). Inr (Some array, leftExpr, rightExpr, ctx3))
                    else Inr (None, leftExpr, rightExpr, ctx2)))
       else if 0 < Rank rightExpr \<and> IsExpandableScalar leftExpr then
         andThen (GetShape rightExpr) (\<lambda>shape.
           case shape of
             None \<Rightarrow> Inr (None, leftExpr, rightExpr, ctx2)
           | Some sh \<Rightarrow>
               (case AsFlatArrayConstructor rightExpr of
                  None \<Rightarrow> Inr (None, leftExpr, rightExpr, ctx2)
                | Some rightValues \<Rightarrow>
                    andThen
                      (MapOperation_scalar_array self ctx2 TR f sh leftExpr rightValues)
                      (\<lambda>(array, ctx3). Inr (Some array, leftExpr, rightExpr, ctx3))))
       else Inr (None, leftExpr, rightExpr, ctx2)))"

subsection \<open>Operations\<close>

definition IntegerResult ::
  "DynamicType \<Rightarrow> int \<times> bool \<Rightarrow> Message \<Rightarrow> FoldingContext \<Rightarrow> error + Expr \<times> FoldingContext" where
  "IntegerResult T r m ctx =
     Inr (Constant T [IntegerValue (fst r)] [], if snd r then Say m ctx else ctx)"

definition FoldOperation_Parentheses ::
  "Folder \<Rightarrow> FoldingContext \<Rightarrow> DynamicType \<Rightarrow> Expr \<Rightarrow> error + Expr \<times> FoldingContext" where
  "FoldOperation_Parentheses self ctx T x =
     andThen (self ctx x) (\<lambda>(operand, ctx1).
       case GetScalarConstantValue operand of
         Some v \<Rightarrow> Inr (Parentheses T (Constant T [v] []), ctx1)
       | None \<Rightarrow> Inr (Parentheses T operand, ctx1))"

definition FoldOperation_Negate ::
  "Folder \<Rightarrow> FoldingContext \<Rightarrow> DynamicType \<Rightarrow> Expr \<Rightarrow> error + Expr \<times> FoldingContext" where
  "FoldOperation_Negate self ctx T x =
     andThen (ApplyElementwise_unary self ctx T (Negate T) x) (\<lambda>(array, operand, ctx1).
       case array of
         Some a \<Rightarrow> Inr (a, ctx1)
       | None \<Rightarrow>
           (case GetScalarConstantValue operand of
              None \<Rightarrow> Inr (Negate T operand, ctx1)
            | Some v \<Rightarrow>
                if category T = Integer then
                  (case v of
                     IntegerValue i \<Rightarrow>
                       IntegerResult T (NegateSigned (kind T) i)
                         (Message False ''INTEGER(%d) negation overflowed'' [IntArg (int (kind T))])
                         ctx1
                   | _ \<Rightarrow> Inl IllTyped)
                else Inl (Unmodelled ''REAL and COMPLEX negation'')))"

text \<open>
  \<^verbatim>\<open>ConvertString\<close>: between distinct kinds a string converts only when every code
  unit is 7-bit ASCII.
\<close>

definition ConvertString :: "DynamicType \<Rightarrow> DynamicType \<Rightarrow> nat list \<Rightarrow> nat list option" where
  "ConvertString TO FROM str =
     (if TO = FROM then Some str
      else if list_ex (\<lambda>c. 127 < c) str then None
      else Some str)"

definition FoldOperation_Convert ::
  "Folder \<Rightarrow> FoldingContext \<Rightarrow> DynamicType \<Rightarrow> Expr \<Rightarrow> error + Expr \<times> FoldingContext" where
  "FoldOperation_Convert self ctx TO x =
     andThen (ApplyElementwise_unary self ctx TO (Convert TO) x) (\<lambda>(array, kindExpr, ctx1).
       case array of
         Some a \<Rightarrow> Inr (a, ctx1)
       | None \<Rightarrow>
           (case GetScalarConstantValue kindExpr of
              None \<Rightarrow> Inr (Convert TO kindExpr, ctx1)
            | Some v \<Rightarrow>
                if category TO = Integer then
                  (if category (GetType kindExpr) = Integer then
                     (case v of
                        IntegerValue i \<Rightarrow>
                          IntegerResult TO (ConvertSigned (kind TO) i)
                            (Message False ''INTEGER(%d) to INTEGER(%d) conversion overflowed''
                               [IntArg (int (kind (GetType kindExpr))), IntArg (int (kind TO))])
                            ctx1
                      | _ \<Rightarrow> Inl IllTyped)
                   else if category (GetType kindExpr) = Real then
                     Inl (Unmodelled ''REAL to INTEGER conversion'')
                   else Inl IllTyped)
                else if category TO = Real then Inl (Unmodelled ''conversion to REAL'')
                else if category TO = Character \<and> category (GetType kindExpr) = Character then
                  (case v of
                     CharacterValue str \<Rightarrow>
                       (case ConvertString TO (GetType kindExpr) str of
                          Some converted \<Rightarrow> Inr (Constant TO [CharacterValue converted] [], ctx1)
                        | None \<Rightarrow> Inr (Convert TO kindExpr, ctx1))
                   | _ \<Rightarrow> Inl IllTyped)
                else if category TO = Logical \<and> category (GetType kindExpr) = Logical then
                  (case v of
                     LogicalValue b \<Rightarrow> Inr (Constant TO [LogicalValue b] [], ctx1)
                   | _ \<Rightarrow> Inl IllTyped)
                else Inl IllTyped))"

text \<open>
  The integer branch of a binary arithmetic operation on two scalar constants; the
  other branch is rounded real arithmetic.
\<close>

definition IntegerOperands ::
  "DynamicType \<Rightarrow> Scalar \<times> Scalar \<Rightarrow> (int \<Rightarrow> int \<Rightarrow> int \<times> bool) \<Rightarrow> Message \<Rightarrow> string \<Rightarrow>
   FoldingContext \<Rightarrow> error + Expr \<times> FoldingContext" where
  "IntegerOperands T folded opr m other ctx =
     (if category T = Integer then
        (case folded of
           (IntegerValue a, IntegerValue b) \<Rightarrow> IntegerResult T (opr a b) m ctx
         | _ \<Rightarrow> Inl IllTyped)
      else Inl (Unmodelled other))"

definition FoldOperation_Add ::
  "Folder \<Rightarrow> FoldingContext \<Rightarrow> DynamicType \<Rightarrow> Expr \<Rightarrow> Expr \<Rightarrow> error + Expr \<times> FoldingContext" where
  "FoldOperation_Add self ctx T x y =
     andThen (ApplyElementwise_binary self ctx T (Add T) x y) (\<lambda>(array, left, right, ctx1).
       case array of
         Some a \<Rightarrow> Inr (a, ctx1)
       | None \<Rightarrow>
           (case OperandsAreConstants left right of
              Some folded \<Rightarrow>
                IntegerOperands T folded (AddSigned (kind T))
                  (Message False ''INTEGER(%d) addition overflowed'' [IntArg (int (kind T))])
                  ''REAL and COMPLEX addition'' ctx1
            | None \<Rightarrow> Inr (Add T left right, ctx1)))"

definition FoldOperation_Subtract ::
  "Folder \<Rightarrow> FoldingContext \<Rightarrow> DynamicType \<Rightarrow> Expr \<Rightarrow> Expr \<Rightarrow> error + Expr \<times> FoldingContext" where
  "FoldOperation_Subtract self ctx T x y =
     andThen (ApplyElementwise_binary self ctx T (Subtract T) x y) (\<lambda>(array, left, right, ctx1).
       case array of
         Some a \<Rightarrow> Inr (a, ctx1)
       | None \<Rightarrow>
           (case OperandsAreConstants left right of
              Some folded \<Rightarrow>
                IntegerOperands T folded (SubtractSigned (kind T))
                  (Message False ''INTEGER(%d) subtraction overflowed'' [IntArg (int (kind T))])
                  ''REAL and COMPLEX subtraction'' ctx1
            | None \<Rightarrow> Inr (Subtract T left right, ctx1)))"

definition FoldOperation_Multiply ::
  "Folder \<Rightarrow> FoldingContext \<Rightarrow> DynamicType \<Rightarrow> Expr \<Rightarrow> Expr \<Rightarrow> error + Expr \<times> FoldingContext" where
  "FoldOperation_Multiply self ctx T x y =
     andThen (ApplyElementwise_binary self ctx T (Multiply T) x y) (\<lambda>(array, left, right, ctx1).
       case array of
         Some a \<Rightarrow> Inr (a, ctx1)
       | None \<Rightarrow>
           (case OperandsAreConstants left right of
              Some folded \<Rightarrow>
                IntegerOperands T folded (MultiplySigned (kind T))
                  (Message False ''INTEGER(%d) multiplication overflowed'' [IntArg (int (kind T))])
                  ''REAL and COMPLEX multiplication'' ctx1
            | None \<Rightarrow> Inr (Multiply T left right, ctx1)))"

text \<open>
  \<^verbatim>\<open>FoldOperation(FoldingContext &, Extremum<T> &&)\<close>.  \<^verbatim>\<open>ApplyElementwise\<close> is called
  without a function, so each pair of elements is combined by its default,
  \<^verbatim>\<open>DERIVED{left, right}\<close>, which for \<^verbatim>\<open>Extremum\<close> takes the default argument
  \<^verbatim>\<open>Ordering::Greater\<close> of the constructor whatever the ordering of the operation.
  The three branches of the \<^verbatim>\<open>if constexpr\<close> chain return the first operand;
  whatever falls through them returns the second.
\<close>

fun ExtremumSelectsFirst :: "TypeCategory \<Rightarrow> Ordering \<Rightarrow> Scalar \<Rightarrow> Scalar \<Rightarrow> bool option" where
  "ExtremumSelectsFirst Integer ordr (IntegerValue a) (IntegerValue b) =
     Some (CompareSigned a b = ordr)"
| "ExtremumSelectsFirst Real ordr (RealValue a) (RealValue b) =
     Some (IsNotANumber a \<or> ((Compare a b = RelationLess) = (ordr = Less)))"
| "ExtremumSelectsFirst Character ordr (CharacterValue a) (CharacterValue b) =
     Some (ordr = CompareCharacter a b)"
| "ExtremumSelectsFirst c ordr a b = None"

definition FoldOperation_Extremum ::
  "Folder \<Rightarrow> FoldingContext \<Rightarrow> DynamicType \<Rightarrow> Ordering \<Rightarrow> Expr \<Rightarrow> Expr \<Rightarrow>
   error + Expr \<times> FoldingContext" where
  "FoldOperation_Extremum self ctx T ordr x y =
     andThen (ApplyElementwise_binary self ctx T (Extremum T Greater) x y)
       (\<lambda>(array, left, right, ctx1).
         case array of
           Some a \<Rightarrow> Inr (a, ctx1)
         | None \<Rightarrow>
             (case OperandsAreConstants left right of
                Some (first, second) \<Rightarrow>
                  (case ExtremumSelectsFirst (category T) ordr first second of
                     Some True \<Rightarrow> Inr (Constant T [first] [], ctx1)
                   | Some False \<Rightarrow> Inr (Constant T [second] [], ctx1)
                   | None \<Rightarrow> Inl IllTyped)
              | None \<Rightarrow> Inr (Extremum T ordr left right, ctx1)))"

definition FoldOperation_ImpliedDoIndex ::
  "FoldingContext \<Rightarrow> string \<Rightarrow> error + Expr \<times> FoldingContext" where
  "FoldOperation_ImpliedDoIndex ctx name =
     (case GetImpliedDo ctx name of
        Some v \<Rightarrow> Inr (Constant SubscriptInteger [IntegerValue v] [], ctx)
      | None \<Rightarrow> Inr (ImpliedDoIndex name, ctx))"

text \<open>
  \<^verbatim>\<open>FoldOperation(FoldingContext &, Designator<T> &&)\<close>.  For a character substring
  the two early returns are modelled; the final visit of a substring goes through
  its bound accessors, which are outside the model.
\<close>

definition FoldOperation_Designator ::
  "Folder \<Rightarrow> Externals \<Rightarrow> FoldingContext \<Rightarrow> DynamicType \<Rightarrow> DesignatorU \<Rightarrow>
   error + Expr \<times> FoldingContext" where
  "FoldOperation_Designator self ext ctx T u =
     (case u of
        SymbolRef symbol \<Rightarrow> Inr (Designator T u, ctx)
      | SubstringRef substring \<Rightarrow>
          if category T = Character then
            (case Substring_Fold ext ctx substring of
               (folded, substring1, ctx1) \<Rightarrow>
                 (case (case folded of Some e \<Rightarrow> GetScalarConstantValue e | None \<Rightarrow> None) of
                    Some v \<Rightarrow> Inr (Constant T [v] [], ctx1)
                  | None \<Rightarrow>
                      andThen (self ctx1 (Substring_LEN ext substring1)) (\<lambda>(len, ctx2).
                        if ToInt64 len = Some 0 then Inr (Constant T [CharacterValue []] [], ctx2)
                        else Inl (Unmodelled ''FoldOperation(Substring)''))))
          else Inl IllTyped)"

subsection \<open>Intrinsic functions\<close>

text \<open>
  \<^verbatim>\<open>FoldElementalIntrinsicHelper\<close>.  \<open>TAs\<close> are the argument types \<^verbatim>\<open>TA...\<close>, and
  \<open>func\<close> is the scalar function, which may write to the context.  Each of the
  first arguments is unwrapped to a \<^verbatim>\<open>Constant<TA>\<close>; \<^verbatim>\<open>value()\<close> of an absent
  argument throws.
\<close>

type_synonym ScalarFunc = "FoldingContext \<Rightarrow> Scalar list \<Rightarrow> error + Scalar \<times> FoldingContext"

fun ConstantArgument :: "DynamicType \<Rightarrow> Expr option \<Rightarrow> error + (Scalar list \<times> int list) option" where
  "ConstantArgument TA None = Inl (Die ''bad_optional_access'')"
| "ConstantArgument TA (Some (Constant T vs sh)) = Inr (if T = TA then Some (vs, sh) else None)"
| "ConstantArgument TA (Some e) = Inr None"

fun ConstantArguments ::
  "DynamicType list \<Rightarrow> Expr option list \<Rightarrow> error + (Scalar list \<times> int list) option list" where
  "ConstantArguments [] arguments = Inr []"
| "ConstantArguments (TA # TAs) [] = Inl (Die ''arguments()[I]'')"
| "ConstantArguments (TA # TAs) (a # arguments) =
     andThen (ConstantArgument TA a) (\<lambda>c.
     andThen (ConstantArguments TAs arguments) (\<lambda>cs. Inr (c # cs)))"

text \<open>
  The loop that computes the shape of the result: the first argument of positive
  rank gives it, and a later one with another shape ends the fold (\<open>None\<close>).
\<close>

fun ResultShape :: "(Scalar list \<times> int list) list \<Rightarrow> int \<Rightarrow> int list \<Rightarrow> (int \<times> int list) option" where
  "ResultShape [] rank shape = Some (rank, shape)"
| "ResultShape ((vs, sh) # args) rank shape =
     (if 0 < int (length sh) then
        (if rank = 0 then ResultShape args (int (length sh)) sh
         else if shape \<noteq> sh then None
         else ResultShape args rank shape)
      else ResultShape args rank shape)"

text \<open>
  Modelled from the spec: \<^verbatim>\<open>TotalElementCount\<close>, \<^verbatim>\<open>InitialSubscripts\<close>,
  \<^verbatim>\<open>IncrementSubscripts\<close> and \<^verbatim>\<open>Constant::At\<close> (\<^verbatim>\<open>constant.h\<close> is not under \<^verbatim>\<open>src/\<close>).
  The subscripts run through the elements in array element order, which is the
  order of the vector of the constant (section 3, array constructor, and invariant
  I2), so the loop is over the positions \<open>0 ..< TotalElementCount shape\<close>.
\<close>

definition TotalElementCount :: "int list \<Rightarrow> int" where
  "TotalElementCount shape = prod_list shape"

definition At :: "Scalar list \<times> int list \<Rightarrow> nat \<Rightarrow> Scalar option" where
  "At c p =
     (let q = (if snd c = [] then 0 else p)
      in if q < length (fst c) then Some (fst c ! q) else None)"

fun ElementalLoop ::
  "ScalarFunc \<Rightarrow> (Scalar list \<times> int list) list \<Rightarrow> nat list \<Rightarrow> FoldingContext \<Rightarrow> Scalar list \<Rightarrow>
   error + Scalar list \<times> FoldingContext" where
  "ElementalLoop func args [] ctx results = Inr (results, ctx)"
| "ElementalLoop func args (p # ps) ctx results =
     (case AllElementsPresent (map (\<lambda>c. At c p) args) of
        None \<Rightarrow> Inl (Die ''Constant::At'')
      | Some xs \<Rightarrow>
          andThen (func ctx xs) (\<lambda>(r, ctx1). ElementalLoop func args ps ctx1 (results @ [r])))"

definition FoldElementalIntrinsicHelper ::
  "FoldingContext \<Rightarrow> DynamicType \<Rightarrow> ProcedureDesignator \<Rightarrow> Expr option list \<Rightarrow> DynamicType list \<Rightarrow>
   ScalarFunc \<Rightarrow> error + Expr \<times> FoldingContext" where
  "FoldElementalIntrinsicHelper ctx TR proc arguments TAs func =
     andThen (ConstantArguments TAs arguments) (\<lambda>args.
       case AllElementsPresent args of
         None \<Rightarrow> Inr (FunctionRef TR proc arguments, ctx)
       | Some cs \<Rightarrow>
           (case ResultShape cs 0 [] of
              None \<Rightarrow>
                Inr (FunctionRef TR proc arguments,
                     Say (Message True
                       ''arguments in elemental intrinsic function are not conformable'' []) ctx)
            | Some (rank, shape) \<Rightarrow>
                if rank \<noteq> int (length shape) then
                  Inl (CheckFailed ''rank == static_cast<int>(shape.size())'')
                else
                  andThen
                    (ElementalLoop func cs [0 ..< nat (TotalElementCount shape)] ctx [])
                    (\<lambda>(results, ctx1). Inr (Constant TR results shape, ctx1))))"

text \<open>
  Modelled from the spec: \<^verbatim>\<open>ConvertToType<TO>\<close> (\<^verbatim>\<open>tools.h\<close> is not under \<^verbatim>\<open>src/\<close>).
  Section 3 has conversions among the alternatives of an expression; \<^verbatim>\<open>fold.cc\<close>
  passes what \<^verbatim>\<open>ConvertToType\<close> returns to \<^verbatim>\<open>Fold\<close>, and builds the same operation
  itself as \<^verbatim>\<open>Convert<IntKIND, TypeCategory::Integer>\<close>.  An expression that has the
  type already is returned as it is, any other is wrapped in the conversion.
\<close>

definition ConvertToType :: "DynamicType \<Rightarrow> Expr \<Rightarrow> Expr" where
  "ConvertToType TO x = (if GetType x = TO then x else Convert TO x)"

definition ArgAt :: "Expr option list \<Rightarrow> nat \<Rightarrow> error + Expr option" where
  "ArgAt args i = (if i < length args then Inr (args ! i) else Inl (Die ''args[i]''))"

text \<open>\<^verbatim>\<open>UnwrapArgument<SomeInteger>\<close>: the argument, when it is an integer expression.\<close>

fun UnwrapArgument_SomeInteger :: "Expr option \<Rightarrow> Expr option" where
  "UnwrapArgument_SomeInteger None = None"
| "UnwrapArgument_SomeInteger (Some e) = (if category (GetType e) = Integer then Some e else None)"

text \<open>The scalar functions that the integer intrinsics hand to the helper.\<close>

definition abs_func :: "nat \<Rightarrow> ScalarFunc" where
  "abs_func KIND ctx xs =
     (case xs of
        [IntegerValue i] \<Rightarrow>
          Inr (IntegerValue (fst (ABS KIND i)),
               if snd (ABS KIND i)
               then Say (Message False ''abs(integer(kind=%d)) folding overflowed''
                      [IntArg (int KIND)]) ctx
               else ctx)
      | _ \<Rightarrow> Inl IllTyped)"

definition dim_func :: "nat \<Rightarrow> ScalarFunc" where
  "dim_func KIND ctx xs =
     (case xs of
        [IntegerValue i, IntegerValue j] \<Rightarrow> Inr (IntegerValue (DIM KIND i j), ctx)
      | _ \<Rightarrow> Inl IllTyped)"

definition member_func :: "Externals \<Rightarrow> IntegerFn \<Rightarrow> nat \<Rightarrow> ScalarFunc" where
  "member_func ext fptr KIND ctx xs =
     (case xs of
        [IntegerValue i, IntegerValue j] \<Rightarrow> Inr (IntegerValue (IntegerMember ext fptr KIND i j), ctx)
      | _ \<Rightarrow> Inl IllTyped)"

text \<open>
  The selection of the member pointer in the branch for \<^verbatim>\<open>ibclr\<close>, \<^verbatim>\<open>ibset\<close>,
  \<^verbatim>\<open>ishft\<close>, \<^verbatim>\<open>shifta\<close>, \<^verbatim>\<open>shiftr\<close> and \<^verbatim>\<open>shiftl\<close>, with the comparisons in the order
  and with the literals of the source; the last \<^verbatim>\<open>else\<close> calls \<^verbatim>\<open>common::die\<close>.
\<close>

definition SelectShiftMember :: "string \<Rightarrow> error + IntegerFn" where
  "SelectShiftMember name =
     (if name = ''ibclr'' then Inr IBCLR
      else if name = ''ibset'' then Inr IBSET
      else if name = ''ibshft'' then Inr ISHFT
      else if name = ''shifta'' then Inr SHIFTA
      else if name = ''shiftr'' then Inr SHIFTR
      else if name = ''shiftl'' then Inr SHIFTL
      else Inl (Die (''missing case to fold intrinsic function '' @ name)))"

definition SelectBitwiseMember :: "string \<Rightarrow> error + IntegerFn" where
  "SelectBitwiseMember name =
     (if name = ''iand'' then Inr IAND
      else if name = ''ior'' then Inr IOR
      else if name = ''ieor'' then Inr IEOR
      else Inl (Die (''missing case to fold intrinsic function '' @ name)))"

text \<open>
  The \<^verbatim>\<open>size\<close> branch.  With \<^verbatim>\<open>DIM=\<close> present and in range the extent is converted
  and folded; out of range a message is written and the call falls through to the
  end of the function; with \<^verbatim>\<open>DIM=\<close> absent the product of the extents is folded
  and then converted.
\<close>

definition FoldSize ::
  "Folder \<Rightarrow> FoldingContext \<Rightarrow> DynamicType \<Rightarrow> ProcedureDesignator \<Rightarrow> Expr option list \<Rightarrow>
   error + Expr \<times> FoldingContext" where
  "FoldSize self ctx T proc args =
     andThen (ArgAt args 0) (\<lambda>array.
       case array of
         None \<Rightarrow> Inl (Die ''bad_optional_access'')
       | Some a \<Rightarrow>
           andThen (GetShape a) (\<lambda>maybeShape.
             case maybeShape of
               None \<Rightarrow> Inr (FunctionRef T proc args, ctx)
             | Some shape \<Rightarrow>
                 andThen (ArgAt args 1) (\<lambda>dimArg.
                   case dimArg of
                     Some expr \<Rightarrow>
                       (case ToInt64 expr of
                          None \<Rightarrow> Inr (FunctionRef T proc args, ctx)
                        | Some dim \<Rightarrow>
                            if 1 \<le> dim \<and> dim \<le> int (length shape) then
                              (case shape ! nat (dim - 1) of
                                 Some extent \<Rightarrow> self ctx (ConvertToType T extent)
                               | None \<Rightarrow> Inr (FunctionRef T proc args, ctx))
                            else
                              Inr (FunctionRef T proc args,
                                   Say (Message False
                                     ''size(array,dim=%jd) dimension is out of range for rank-%d array''
                                     [IntArg dim, IntArg (int (length shape))]) ctx))
                   | None \<Rightarrow>
                       (case AllElementsPresent shape of
                          None \<Rightarrow> Inr (FunctionRef T proc args, ctx)
                        | Some extents \<Rightarrow>
                            andThen
                              (self ctx (foldl (Multiply SubscriptInteger) (ExtentExpr 1) extents))
                              (\<lambda>(product, ctx1). Inr (ConvertToType T product, ctx1))))))"

text \<open>
  \<^verbatim>\<open>FoldOperation(FoldingContext &, FunctionRef<Type<Integer, KIND>> &&)\<close>.  The loop
  over the arguments calls \<^verbatim>\<open>FoldOperation\<close> on each argument expression.  The
  branches are in the order of the source.  The branches that convert BOZ literals
  do nothing of that here, the model having no BOZ literals; the branches for
  \<^verbatim>\<open>dshiftl\<close>, \<^verbatim>\<open>dshiftr\<close>, \<^verbatim>\<open>exponent\<close>, \<^verbatim>\<open>leadz\<close>, \<^verbatim>\<open>trailz\<close>, \<^verbatim>\<open>poppar\<close>, \<^verbatim>\<open>popcnt\<close>,
  \<^verbatim>\<open>len\<close>, \<^verbatim>\<open>maskl\<close>, \<^verbatim>\<open>maskr\<close>, \<^verbatim>\<open>merge_bits\<close> and \<^verbatim>\<open>shape\<close> are outside the model.
\<close>

definition FoldOperation_FunctionRef_Integer ::
  "Folder \<Rightarrow> Externals \<Rightarrow> FoldingContext \<Rightarrow> nat \<Rightarrow> ProcedureDesignator \<Rightarrow> Expr option list \<Rightarrow>
   error + Expr \<times> FoldingContext" where
  "FoldOperation_FunctionRef_Integer self ext ctx KIND proc arguments =
     (let T = Type Integer KIND;
          args = map (map_option (FoldOperation ctx)) arguments
      in case proc of
           ProcedureSymbol symbol r \<Rightarrow> Inr (FunctionRef T proc args, ctx)
         | SpecificIntrinsic name r \<Rightarrow>
             if name = ''abs'' then
               FoldElementalIntrinsicHelper ctx T proc args [T] (abs_func KIND)
             else if name = ''dim'' then
               FoldElementalIntrinsicHelper ctx T proc args [T, T] (dim_func KIND)
             else if name = ''dshiftl'' \<or> name = ''dshiftr'' then Inl (Unmodelled name)
             else if name = ''exponent'' then Inl (Unmodelled name)
             else if name = ''iand'' \<or> name = ''ior'' \<or> name = ''ieor'' then
               andThen (SelectBitwiseMember name) (\<lambda>fptr.
                 FoldElementalIntrinsicHelper ctx T proc args [T, T] (member_func ext fptr KIND))
             else if name = ''ibclr'' \<or> name = ''ibset'' \<or> name = ''ishft'' \<or>
                     name = ''shifta'' \<or> name = ''shiftr'' \<or> name = ''shiftl'' then
               andThen (ArgAt args 1) (\<lambda>arg1.
               andThen
                 (case UnwrapArgument_SomeInteger arg1 of
                    Some n \<Rightarrow>
                      if kind (GetType n) \<noteq> 4 then
                        andThen (self ctx (ConvertToType Int4 n)) (\<lambda>(n', ctx1).
                          Inr (args[1 := Some n'], ctx1))
                      else Inr (args, ctx)
                  | None \<Rightarrow> Inr (args, ctx))
                 (\<lambda>(args1, ctx1).
                    andThen (SelectShiftMember name) (\<lambda>fptr.
                      FoldElementalIntrinsicHelper ctx1 T proc args1 [T, Int4]
                        (member_func ext fptr KIND))))
             else if name = ''int'' then
               andThen (ArgAt args 0) (\<lambda>arg0.
                 case arg0 of
                   None \<Rightarrow> Inl (Die ''bad_optional_access'')
                 | Some x \<Rightarrow>
                     if category (GetType x) = Integer \<or> category (GetType x) = Real \<or>
                        category (GetType x) = Complex
                     then self ctx (ConvertToType T x)
                     else Inl (Die ''int() argument type not valid''))
             else if name = ''kind'' then
               andThen (ArgAt args 0) (\<lambda>arg0.
                 case arg0 of
                   None \<Rightarrow> Inl (Die ''bad_optional_access'')
                 | Some x \<Rightarrow> Inr (Constant T [IntegerValue (int (kind (GetType x)))] [], ctx))
             else if name = ''leadz'' \<or> name = ''trailz'' \<or> name = ''poppar'' \<or>
                     name = ''popcnt'' then Inl (Unmodelled name)
             else if name = ''len'' then Inl (Unmodelled name)
             else if name = ''maskl'' \<or> name = ''maskr'' then Inl (Unmodelled name)
             else if name = ''merge_bits'' then Inl (Unmodelled name)
             else if name = ''rank'' then
               andThen (ArgAt args 0) (\<lambda>arg0.
                 case arg0 of
                   None \<Rightarrow> Inl (Die ''bad_optional_access'')
                 | Some x \<Rightarrow> Inr (Constant T [IntegerValue (Rank x)] [], ctx))
             else if name = ''shape'' then Inl (Unmodelled name)
             else if name = ''size'' then FoldSize self ctx T proc args
             else Inr (FunctionRef T proc args, ctx))"

text \<open>
  The function references of the other categories.  \<^verbatim>\<open>fold.cc\<close> has no overload for
  a character function reference, which therefore takes the no-op base case.  The
  real, complex and logical overloads fold intrinsics through the host library and
  real arithmetic, outside the model; a reference to another procedure is returned
  with its arguments.
\<close>

definition FoldOperation_FunctionRef ::
  "Folder \<Rightarrow> Externals \<Rightarrow> FoldingContext \<Rightarrow> DynamicType \<Rightarrow> ProcedureDesignator \<Rightarrow> Expr option list \<Rightarrow>
   error + Expr \<times> FoldingContext" where
  "FoldOperation_FunctionRef self ext ctx T proc arguments =
     (if category T = Integer then
        FoldOperation_FunctionRef_Integer self ext ctx (kind T) proc arguments
      else if category T = Character then Inr (FunctionRef T proc arguments, ctx)
      else
        (case proc of
           ProcedureSymbol symbol r \<Rightarrow>
             Inr (FunctionRef T proc (map (map_option (FoldOperation ctx)) arguments), ctx)
         | SpecificIntrinsic name r \<Rightarrow> Inl (Unmodelled name)))"

subsection \<open>Rewrite and Fold\<close>

text \<open>
  \<^verbatim>\<open>ExpressionBase<T>::Rewrite\<close> visits the alternative held by the expression and
  calls the \<^verbatim>\<open>FoldOperation\<close> overload for it; a constant takes the no-op base case.
\<close>

fun Rewrite :: "Folder \<Rightarrow> Externals \<Rightarrow> FoldingContext \<Rightarrow> Expr \<Rightarrow> error + Expr \<times> FoldingContext" where
  "Rewrite self ext ctx (Constant T vs sh) = Inr (FoldOperation ctx (Constant T vs sh), ctx)"
| "Rewrite self ext ctx (Designator T u) = FoldOperation_Designator self ext ctx T u"
| "Rewrite self ext ctx (FunctionRef T proc arguments) =
     FoldOperation_FunctionRef self ext ctx T proc arguments"
| "Rewrite self ext ctx (ArrayConstructor T array) = FoldOperation_ArrayConstructor self ctx T array"
| "Rewrite self ext ctx (ImpliedDoIndex name) = FoldOperation_ImpliedDoIndex ctx name"
| "Rewrite self ext ctx (Parentheses T x) = FoldOperation_Parentheses self ctx T x"
| "Rewrite self ext ctx (Negate T x) = FoldOperation_Negate self ctx T x"
| "Rewrite self ext ctx (Convert T x) = FoldOperation_Convert self ctx T x"
| "Rewrite self ext ctx (Add T x y) = FoldOperation_Add self ctx T x y"
| "Rewrite self ext ctx (Subtract T x y) = FoldOperation_Subtract self ctx T x y"
| "Rewrite self ext ctx (Multiply T x y) = FoldOperation_Multiply self ctx T x y"
| "Rewrite self ext ctx (Extremum T ordr x y) = FoldOperation_Extremum self ctx T ordr x y"

text \<open>
  \<^verbatim>\<open>Fold(context, expr)\<close> is \<^verbatim>\<open>Expr<T>::Rewrite(context, std::move(expr))\<close>.  The first
  argument bounds the depth of the calls of \<^verbatim>\<open>Fold\<close> from within \<^verbatim>\<open>Fold\<close>; a call
  that would go deeper returns \<open>OutOfFuel\<close>.
\<close>

fun Fold :: "nat \<Rightarrow> Externals \<Rightarrow> FoldingContext \<Rightarrow> Expr \<Rightarrow> error + Expr \<times> FoldingContext" where
  "Fold 0 ext ctx expr = Inl OutOfFuel"
| "Fold (Suc n) ext ctx expr = Rewrite (Fold n ext) ext ctx expr"

section \<open>Reference definitions\<close>

text \<open>
  The unrolling of an implied DO in the words of the specification: the index takes
  the values \<open>lower, lower + stride, ...\<close> while it is at most \<open>upper\<close> for a positive
  stride, and while it is at least \<open>upper\<close> for a negative one.
\<close>

definition TripValues :: "int \<Rightarrow> int \<Rightarrow> int \<Rightarrow> int list" where
  "TripValues lower upper stride =
     (if 0 < stride then
        map (\<lambda>k. lower + int k * stride) [0 ..< nat ((upper - lower) div stride + 1)]
      else if stride < 0 then
        map (\<lambda>k. lower + int k * stride) [0 ..< nat ((lower - upper) div (- stride) + 1)]
      else [])"

text \<open>
  The index of an implied DO can be stepped after each of its values: the sum of the
  value and the stride is a \<^verbatim>\<open>std::int64_t\<close>.
\<close>

definition IndexInRange :: "int \<Rightarrow> int \<Rightarrow> int \<Rightarrow> bool" where
  "IndexInRange lower upper stride =
     list_all (\<lambda>j. Int64 (j + stride)) (TripValues lower upper stride)"

text \<open>
  The body of an implied DO run once for each value of a list, with the index bound
  to the value; the result is the conjunction of the results of the runs.
\<close>

fun OverIndices ::
  "(FolderState \<Rightarrow> error + bool \<times> FolderState) \<Rightarrow> string \<Rightarrow> int list \<Rightarrow> bool \<Rightarrow> FolderState \<Rightarrow>
   error + bool \<times> FolderState" where
  "OverIndices body name [] result st = Inr (result, st)"
| "OverIndices body name (j # js) result st =
     (case body (StartImpliedDo name j (fst st), snd st) of
        Inl e \<Rightarrow> Inl e
      | Inr (ok, st') \<Rightarrow> OverIndices body name js (result \<and> ok) st')"

text \<open>
  A context with no diagnostics and no implied-DO index, and an instance of the
  external members, for running the folder on concrete expressions: no substring
  has a constant value, every substring has the length expression \<open>0\<close>, and the
  bitwise members return their receiver.
\<close>

definition emptyContext :: FoldingContext where
  "emptyContext = \<lparr>messages = [], impliedDos = Map.empty\<rparr>"

definition sampleExternals :: Externals where
  "sampleExternals =
     \<lparr>Substring_Fold = (\<lambda>ctx substring. (None, substring, ctx)),
      Substring_LEN = (\<lambda>substring. ExtentExpr 0),
      IntegerMember = (\<lambda>fptr KIND i j. i)\<rparr>"

section \<open>Basic facts\<close>

lemma andThen_simps [simp]:
  "andThen (Inl e) f = Inl e"
  "andThen (Inr x) f = f x"
  by (simp_all add: andThen_def)

lemma FoldOperation_base [simp]: "FoldOperation ctx x = x"
  by (simp add: FoldOperation_def)

lemma GetScalarConstantValue_Some:
  "GetScalarConstantValue e = Some v \<longleftrightarrow> (\<exists>T. e = Constant T [v] [])"
  by (cases e rule: GetScalarConstantValue.cases) auto

lemma Fold_Constant [simp]:
  "Fold (Suc n) ext ctx (Constant T vs sh) = Inr (Constant T vs sh, ctx)"
  by simp

lemma Fold_ExtentExpr [simp]: "Fold (Suc n) ext ctx (ExtentExpr v) = Inr (ExtentExpr v, ctx)"
  by (simp add: ExtentExpr_def)

lemma FoldOperation_arguments [simp]:
  "map (map_option (FoldOperation ctx)) arguments = arguments"
proof -
  have "FoldOperation ctx = id" by (rule ext) simp
  then show ?thesis by (simp add: option.map_id0)
qed

lemma AllElementsPresent_map_Some [simp]: "AllElementsPresent (map Some xs) = Some xs"
  by (simp add: AllElementsPresent_def list_all_iff comp_def)

lemma EndImpliedDo_StartImpliedDo [simp]:
  "EndImpliedDo name (StartImpliedDo name j ctx) = EndImpliedDo name ctx"
  by (simp add: EndImpliedDo_def StartImpliedDo_def)

lemma ApplyElementwise_binary_scalars:
  "ApplyElementwise_binary (Fold (Suc n) ext) ctx TR f (Constant T [a] []) (Constant T' [b] []) =
     Inr (None, Constant T [a] [], Constant T' [b] [], ctx)"
  by (simp add: ApplyElementwise_binary_def)

lemma CompareCharacter_Equal: "CompareCharacter a b = Equal \<longleftrightarrow> a = b"
  by (induction a b rule: CompareCharacter.induct) auto

lemma CompareCharacter_swap: "CompareCharacter a b = Greater \<longleftrightarrow> CompareCharacter b a = Less"
  by (induction a b rule: CompareCharacter.induct) auto

declare ImpliedDoLoop.simps [simp del]

text \<open>The defining equations that evaluate the folder on a concrete expression.\<close>

lemmas eval_defs =
  FoldOperation_ArrayConstructor_def FoldArray_ImpliedDo_def FoldArray_Expr_def
  FoldOperation_Convert_def FoldOperation_Multiply_def FoldOperation_Add_def
  FoldOperation_ImpliedDoIndex_def FoldOperation_Designator_def
  FoldOperation_FunctionRef_def FoldOperation_FunctionRef_Integer_def FoldSize_def
  ApplyElementwise_unary_def ApplyElementwise_binary_def OperandsAreConstants_def
  MapOperation_array_array_def FromArrayConstructor_def CheckConformance_def
  AsConstantExtents_def AllElementsPresent_def AsShape_def ConvertToType_def ArgAt_def
  IntegerOperands_def IntegerResult_def MultiplySigned_def AddSigned_def ConvertSigned_def
  wrap_def bits_def ExtentExpr_def emptyContext_def StartImpliedDo_def EndImpliedDo_def
  GetImpliedDo_def Say_def GetSize_def ImpliedDoLoop.simps Int64_def


section \<open>Parentheses\<close>

text \<open>
  Claim C7.  For every constant \<open>c\<close>, scalar or array, folding \<open>Parentheses(c)\<close>
  gives \<open>Parentheses(c)\<close> with the constant inside and writes no diagnostic: the
  parentheses node is not elided.
\<close>

theorem parentheses_preserved:
  "Fold (Suc (Suc n)) ext ctx (Parentheses T (Constant T vs sh)) =
     Inr (Parentheses T (Constant T vs sh), ctx)"
proof (cases "GetScalarConstantValue (Constant T vs sh)")
  case None
  then show ?thesis by (simp add: FoldOperation_Parentheses_def)
next
  case (Some v)
  then have "vs = [v]" and "sh = []" by (auto simp: GetScalarConstantValue_Some)
  then show ?thesis by (simp add: FoldOperation_Parentheses_def)
qed

theorem parentheses_preserved_witness:
  "Fold 2 sampleExternals emptyContext
     (Parentheses (Type Real 4) (Constant (Type Real 4) [RealValue (Number 3)] [])) =
   Inr (Parentheses (Type Real 4) (Constant (Type Real 4) [RealValue (Number 3)] []), emptyContext)"
  using parentheses_preserved [of 0 sampleExternals emptyContext "Type Real 4" "[RealValue (Number 3)]" "[]"]
  by (simp add: numeral_2_eq_2)

section \<open>Extremum\<close>

text \<open>
  Over arrays the elements are combined by \<^verbatim>\<open>Extremum{left, right}\<close>, whose ordering
  is \<^verbatim>\<open>Ordering::Greater\<close>: the lesser of \<open>[1, 5]\<close> and \<open>[3, 2]\<close> folds to \<open>[3, 5]\<close>.
\<close>

lemma extremum_of_arrays:
  "Fold 4 sampleExternals emptyContext
     (Extremum Int4 Less (Constant Int4 [IntegerValue 1, IntegerValue 5] [2])
        (Constant Int4 [IntegerValue 3, IntegerValue 2] [2])) =
   Inr (Constant Int4 [IntegerValue 3, IntegerValue 5] [2], emptyContext)"
  by (simp add: numeral_eq_Suc eval_defs FoldOperation_Extremum_def CompareSigned_def)

lemma CompareCharacter_refl: "CompareCharacter a a = Equal"
  by (simp add: CompareCharacter_Equal)

lemma ExtremumCharacter_greatest:
  "CompareCharacter (if CompareCharacter s t = Greater then s else t) s \<noteq> Less \<and>
   CompareCharacter (if CompareCharacter s t = Greater then s else t) t \<noteq> Less"
  using CompareCharacter_swap [of s t] by (auto simp: CompareCharacter_refl)

lemma ExtremumCharacter_least:
  "CompareCharacter (if CompareCharacter s t = Less then s else t) s \<noteq> Greater \<and>
   CompareCharacter (if CompareCharacter s t = Less then s else t) t \<noteq> Greater"
  using CompareCharacter_swap [of t s] by (auto simp: CompareCharacter_refl)

lemma Fold_Extremum_scalars:
  "Fold (Suc (Suc n)) ext ctx (Extremum T ordr (Constant T [a] []) (Constant T [b] [])) =
     (case ExtremumSelectsFirst (category T) ordr a b of
        Some True \<Rightarrow> Inr (Constant T [a] [], ctx)
      | Some False \<Rightarrow> Inr (Constant T [b] [], ctx)
      | None \<Rightarrow> Inl IllTyped)"
  by (simp add: FoldOperation_Extremum_def ApplyElementwise_binary_scalars OperandsAreConstants_def)

lemma Extremum_Integer:
  "Fold (Suc (Suc n)) ext ctx
     (Extremum (Type Integer k) ordr (Constant (Type Integer k) [IntegerValue a] [])
        (Constant (Type Integer k) [IntegerValue b] [])) =
   Inr (Constant (Type Integer k)
          [IntegerValue (case ordr of Greater \<Rightarrow> max a b | Less \<Rightarrow> min a b | Equal \<Rightarrow> b)] [],
        ctx)"
  unfolding Fold_Extremum_scalars by (cases ordr) (auto simp: CompareSigned_def)

lemma Extremum_Real_first_NaN:
  "Fold (Suc (Suc n)) ext ctx
     (Extremum (Type Real k) ordr (Constant (Type Real k) [RealValue NotANumber] [])
        (Constant (Type Real k) [RealValue y] [])) =
   Inr (Constant (Type Real k) [RealValue NotANumber] [], ctx)"
  unfolding Fold_Extremum_scalars by simp

lemma Extremum_Real_second_NaN:
  "Fold (Suc (Suc n)) ext ctx
     (Extremum (Type Real k) ordr (Constant (Type Real k) [RealValue (Number p)] [])
        (Constant (Type Real k) [RealValue NotANumber] [])) =
   Inr (Constant (Type Real k) [RealValue (if ordr = Less then NotANumber else Number p)] [],
        ctx)"
  unfolding Fold_Extremum_scalars by simp

lemma Extremum_Real_numbers:
  "Fold (Suc (Suc n)) ext ctx
     (Extremum (Type Real k) ordr (Constant (Type Real k) [RealValue (Number p)] [])
        (Constant (Type Real k) [RealValue (Number q)] [])) =
   Inr (Constant (Type Real k)
          [RealValue (Number (if ordr = Less then min p q else max p q))] [], ctx)"
  unfolding Fold_Extremum_scalars by auto

lemma Extremum_Character:
  "Fold (Suc (Suc n)) ext ctx
     (Extremum (Type Character k) ordr (Constant (Type Character k) [CharacterValue s] [])
        (Constant (Type Character k) [CharacterValue t] [])) =
   Inr (Constant (Type Character k)
          [CharacterValue (if CompareCharacter s t = ordr then s else t)] [], ctx)"
  unfolding Fold_Extremum_scalars by auto

text \<open>
  Claim C3, as amended.  Folding \<open>Extremum<T>\<close> of two scalar constants gives a
  constant and writes no diagnostic.  For Integer the result is the larger operand
  under \<open>Ordering::Greater\<close> and the smaller under \<open>Ordering::Less\<close>, so that equal
  operands give the value of the first.  For Real the result is the first operand
  when the first operand is a NaN; when only the second operand is a NaN it is the
  first operand unless the ordering is \<open>Ordering::Less\<close>, where it is the second
  operand, the NaN; for two numbers it is the larger or the smaller.  For Character
  the result is the first operand when the comparison of the operands is the
  ordering, else the second; operands compare equal only when they are the same
  string, and the result is not smaller (under \<open>Greater\<close>) or not larger (under
  \<open>Less\<close>) than either operand.
\<close>

theorem extremum_of_constants:
  "Fold (Suc (Suc n)) ext ctx
     (Extremum (Type Integer k) ordr (Constant (Type Integer k) [IntegerValue a] [])
        (Constant (Type Integer k) [IntegerValue b] [])) =
   Inr (Constant (Type Integer k)
          [IntegerValue (case ordr of Greater \<Rightarrow> max a b | Less \<Rightarrow> min a b | Equal \<Rightarrow> b)] [],
        ctx) \<and>
   Fold (Suc (Suc n)) ext ctx
     (Extremum (Type Real k) ordr (Constant (Type Real k) [RealValue NotANumber] [])
        (Constant (Type Real k) [RealValue y] [])) =
   Inr (Constant (Type Real k) [RealValue NotANumber] [], ctx) \<and>
   Fold (Suc (Suc n)) ext ctx
     (Extremum (Type Real k) ordr (Constant (Type Real k) [RealValue (Number p)] [])
        (Constant (Type Real k) [RealValue NotANumber] [])) =
   Inr (Constant (Type Real k) [RealValue (if ordr = Less then NotANumber else Number p)] [],
        ctx) \<and>
   Fold (Suc (Suc n)) ext ctx
     (Extremum (Type Real k) ordr (Constant (Type Real k) [RealValue (Number p)] [])
        (Constant (Type Real k) [RealValue (Number q)] [])) =
   Inr (Constant (Type Real k)
          [RealValue (Number (if ordr = Less then min p q else max p q))] [], ctx) \<and>
   Fold (Suc (Suc n)) ext ctx
     (Extremum (Type Character k) ordr (Constant (Type Character k) [CharacterValue s] [])
        (Constant (Type Character k) [CharacterValue t] [])) =
   Inr (Constant (Type Character k)
          [CharacterValue (if CompareCharacter s t = ordr then s else t)] [], ctx) \<and>
   (CompareCharacter s t = Equal) = (s = t) \<and>
   (CompareCharacter (if CompareCharacter s t = Greater then s else t) s \<noteq> Less \<and>
    CompareCharacter (if CompareCharacter s t = Greater then s else t) t \<noteq> Less) \<and>
   (CompareCharacter (if CompareCharacter s t = Less then s else t) s \<noteq> Greater \<and>
    CompareCharacter (if CompareCharacter s t = Less then s else t) t \<noteq> Greater)"
  by (intro conjI Extremum_Integer Extremum_Real_first_NaN Extremum_Real_second_NaN
      Extremum_Real_numbers Extremum_Character CompareCharacter_Equal
      ExtremumCharacter_greatest [THEN conjunct1] ExtremumCharacter_greatest [THEN conjunct2]
      ExtremumCharacter_least [THEN conjunct1] ExtremumCharacter_least [THEN conjunct2])

theorem extremum_of_constants_witness:
  "Fold 2 sampleExternals emptyContext
     (Extremum (Type Real 4) Greater (Constant (Type Real 4) [RealValue (Number 1)] [])
        (Constant (Type Real 4) [RealValue NotANumber] [])) =
   Inr (Constant (Type Real 4) [RealValue (Number 1)] [], emptyContext)"
  using extremum_of_constants [of 0 sampleExternals emptyContext 4 Greater _ _ _ 1]
  by (simp add: numeral_2_eq_2)

text \<open>
  The claim as it was stated fails for Real at \<open>MIN(1.0, NaN)\<close>: the result is the
  second operand.
\<close>

theorem extremum_second_nan_counterexample:
  "Fold 2 sampleExternals emptyContext
     (Extremum (Type Real 4) Less (Constant (Type Real 4) [RealValue (Number 1)] [])
        (Constant (Type Real 4) [RealValue NotANumber] [])) =
   Inr (Constant (Type Real 4) [RealValue NotANumber] [], emptyContext) \<and>
   Constant (Type Real 4) [RealValue NotANumber] [] \<noteq>
   Constant (Type Real 4) [RealValue (Number 1)] []"
  by (simp add: numeral_2_eq_2 FoldOperation_Extremum_def ApplyElementwise_binary_scalars
      OperandsAreConstants_def)

section \<open>The integer intrinsic ishft\<close>

text \<open>
  Claim C2.  The branch of the integer intrinsics that \<^verbatim>\<open>ishft\<close> enters compares the
  name with \<^verbatim>\<open>ibshft\<close> when it selects the member function, so for \<^verbatim>\<open>ishft\<close> every
  comparison fails and the folder ends in \<^verbatim>\<open>common::die\<close>: folding a reference to
  \<^verbatim>\<open>ishft\<close> with a constant operand and a constant shift count of kind 4 returns no
  expression.
\<close>

theorem ishft_dies:
  "Fold (Suc n) ext ctx
     (FunctionRef (Type Integer k) (SpecificIntrinsic ''ishft'' r)
        [Some (Constant (Type Integer k) [IntegerValue i] []),
         Some (Constant Int4 [IntegerValue s] [])]) =
   Inl (Die ''missing case to fold intrinsic function ishft'')"
  by (simp add: FoldOperation_FunctionRef_def FoldOperation_FunctionRef_Integer_def ArgAt_def
      SelectShiftMember_def)

theorem ishft_dies_witness:
  "Fold 1 sampleExternals emptyContext
     (FunctionRef Int4 (SpecificIntrinsic ''ishft'' 0)
        [Some (Constant Int4 [IntegerValue 1] []), Some (Constant Int4 [IntegerValue 2] [])]) =
   Inl (Die ''missing case to fold intrinsic function ishft'')"
  using ishft_dies [of 0 sampleExternals emptyContext 4 0 1 2] by simp

section \<open>Implied DO loops\<close>

lemma TripValues_step_up:
  assumes "0 < step" "j \<le> e"
  shows "TripValues j e step = j # TripValues (j + step) e step"
proof -
  have d: "(e - (j + step)) div step + 1 = (e - j) div step"
    using div_add_self2 [of step "e - (j + step)"] assms by simp
  have nn: "0 \<le> (e - j) div step"
    using assms by (simp add: pos_imp_zdiv_nonneg_iff)
  then have n: "nat ((e - j) div step + 1) = Suc (nat ((e - j) div step))"
    by simp
  have "map (\<lambda>k. j + int k * step) [0 ..< Suc (nat ((e - j) div step))] =
        j # map (\<lambda>k. j + step + int k * step) [0 ..< nat ((e - j) div step)]"
    by (simp add: upt_conv_Cons map_Suc_upt [symmetric] algebra_simps del: upt_Suc)
  then show ?thesis
    using assms by (simp add: TripValues_def n d del: upt_Suc)
qed

lemma TripValues_done_up:
  assumes "0 < step" "e < j"
  shows "TripValues j e step = []"
proof -
  have "(e - j) div step < 0"
    using assms by (simp add: div_neg_pos_less0)
  then show ?thesis using assms by (simp add: TripValues_def)
qed

lemma TripValues_step_down:
  assumes "step < 0" "e \<le> j"
  shows "TripValues j e step = j # TripValues (j + step) e step"
proof -
  have d: "(j + step - e) div (- step) + 1 = (j - e) div (- step)"
    using div_add_self2 [of "- step" "j + step - e"] assms by simp
  have nn: "0 \<le> (j - e) div (- step)"
    using assms by (simp add: pos_imp_zdiv_nonneg_iff)
  then have n: "nat ((j - e) div (- step) + 1) = Suc (nat ((j - e) div (- step)))"
    by simp
  have "map (\<lambda>k. j + int k * step) [0 ..< Suc (nat ((j - e) div (- step)))] =
        j # map (\<lambda>k. j + step + int k * step) [0 ..< nat ((j - e) div (- step))]"
    by (simp add: upt_conv_Cons map_Suc_upt [symmetric] algebra_simps del: upt_Suc)
  then show ?thesis
    using assms by (simp add: TripValues_def n d del: upt_Suc)
qed

lemma TripValues_done_down:
  assumes "step < 0" "j < e"
  shows "TripValues j e step = []"
proof -
  have "(j - e) div (- step) < 0"
    using assms by (simp add: div_neg_pos_less0)
  then show ?thesis using assms by (simp add: TripValues_def)
qed

lemma IndexInRange_step_up:
  assumes "0 < step" "j \<le> e" "IndexInRange j e step"
  shows "Int64 (j + step) \<and> IndexInRange (j + step) e step"
  using assms by (simp add: IndexInRange_def TripValues_step_up)

lemma IndexInRange_step_down:
  assumes "step < 0" "e \<le> j" "IndexInRange j e step"
  shows "Int64 (j + step) \<and> IndexInRange (j + step) e step"
  using assms by (simp add: IndexInRange_def TripValues_step_down)

lemma ImpliedDoLoop_up:
  assumes "0 < step"
  shows "IndexInRange j e step \<Longrightarrow>
         andThen (ImpliedDoLoop body name e step j result (StartImpliedDo name j ctx, els))
           (\<lambda>(r, (c, es)). Inr (r, (EndImpliedDo name c, es))) =
         andThen (OverIndices body name (TripValues j e step) result (ctx, els))
           (\<lambda>(r, (c, es)). Inr (r, (EndImpliedDo name c, es)))"
proof (induction "nat (e - j + 1)" arbitrary: j result ctx els rule: less_induct)
  case less
  show ?case
  proof (cases "j \<le> e")
    case False
    then show ?thesis
      using assms by (subst ImpliedDoLoop.simps) (simp add: TripValues_done_up)
  next
    case True
    note range = IndexInRange_step_up [OF assms True less.prems]
    show ?thesis
    proof (cases "body (StartImpliedDo name j ctx, els)")
      case (Inl err)
      then show ?thesis
        using assms True by (subst ImpliedDoLoop.simps) (simp add: TripValues_step_up)
    next
      case (Inr r)
      obtain ok ctx' els' where r: "r = (ok, (ctx', els'))" by (cases r) auto
      have "nat (e - (j + step) + 1) < nat (e - j + 1)" using assms True by simp
      from less.hyps [OF this, of "result \<and> ok" ctx' els'] range show ?thesis
        using assms True Inr r by (subst ImpliedDoLoop.simps) (simp add: TripValues_step_up)
    qed
  qed
qed

lemma ImpliedDoLoop_down:
  assumes "step < 0"
  shows "IndexInRange j e step \<Longrightarrow>
         andThen (ImpliedDoLoop body name e step j result (StartImpliedDo name j ctx, els))
           (\<lambda>(r, (c, es)). Inr (r, (EndImpliedDo name c, es))) =
         andThen (OverIndices body name (TripValues j e step) result (ctx, els))
           (\<lambda>(r, (c, es)). Inr (r, (EndImpliedDo name c, es)))"
proof (induction "nat (j - e + 1)" arbitrary: j result ctx els rule: less_induct)
  case less
  show ?case
  proof (cases "e \<le> j")
    case False
    then show ?thesis
      using assms by (subst ImpliedDoLoop.simps) (simp add: TripValues_done_down)
  next
    case True
    note range = IndexInRange_step_down [OF assms True less.prems]
    show ?thesis
    proof (cases "body (StartImpliedDo name j ctx, els)")
      case (Inl err)
      then show ?thesis
        using assms True by (subst ImpliedDoLoop.simps) (simp add: TripValues_step_down)
    next
      case (Inr r)
      obtain ok ctx' els' where r: "r = (ok, (ctx', els'))" by (cases r) auto
      have "nat (j + step - e + 1) < nat (j - e + 1)" using assms True by simp
      from less.hyps [OF this, of "result \<and> ok" ctx' els'] range show ?thesis
        using assms True Inr r by (subst ImpliedDoLoop.simps) (simp add: TripValues_step_down)
    qed
  qed
qed

text \<open>
  An implied DO whose bounds and stride fold to integer constants, and whose index
  can be stepped after each of its values, walks its body once for each value of
  \<open>TripValues\<close>, in that order, and unbinds the index afterwards.
\<close>

lemma FoldArray_ImpliedDo_unrolled:
  assumes "self ctx lower = Inr (lower', ctx1)"
    and "self ctx1 upper = Inr (upper', ctx2)"
    and "self ctx2 stride = Inr (stride', ctx3)"
    and "ToInt64 lower' = Some start" and "ToInt64 upper' = Some e" and "ToInt64 stride' = Some step"
    and "IndexInRange start e step"
  shows "FoldArray_Value self (ctx, elements) (ImpliedDo name lower upper stride body) =
     (if step = 0 then Inr (False, (ctx3, elements))
      else andThen
             (OverIndices (\<lambda>st. FoldArray_Values self st body) name (TripValues start e step) True
                (ctx3, elements))
             (\<lambda>(result, (ctx4, elements')). Inr (result, (EndImpliedDo name ctx4, elements'))))"
proof (cases "step = 0")
  case True
  then show ?thesis using assms by (simp add: FoldArray_ImpliedDo_def)
next
  case False
  then consider "0 < step" | "step < 0" by linarith
  then show ?thesis
  proof cases
    case 1
    then show ?thesis using assms False
      by (simp add: FoldArray_ImpliedDo_def ImpliedDoLoop_up)
  next
    case 2
    then show ?thesis using assms False
      by (simp add: FoldArray_ImpliedDo_def ImpliedDoLoop_down)
  qed
qed

lemma implied_do_of_squares:
  "Fold 6 sampleExternals emptyContext
     (ArrayConstructor Int4
        [ImpliedDo ''i'' (ExtentExpr 1) (ExtentExpr 5) (ExtentExpr 1)
           [ACExpr (Convert Int4
              (Multiply SubscriptInteger (ImpliedDoIndex ''i'') (ImpliedDoIndex ''i'')))]]) =
   Inr (Constant Int4
          [IntegerValue 1, IntegerValue 4, IntegerValue 9, IntegerValue 16, IntegerValue 25] [5],
        emptyContext)"
  by (simp add: numeral_eq_Suc eval_defs)

text \<open>
  Claim C6.  The loops of \<^verbatim>\<open>FoldArray(const ImpliedDo<T> &)\<close> step the index with
  \<^verbatim>\<open>j += *step\<close> after every walk of the body, also after the last one, and do not
  look at the sum.  For \<open>[(i, i = 9223372036854775807, 9223372036854775807)]\<close> the
  claim has the body walked once, with the index at the bound; the loop walks it
  and then adds 1 to the greatest \<^verbatim>\<open>std::int64_t\<close>, which is undefined: the fold does
  not give the constant with that one element.  The same holds for a negative
  stride at the least \<^verbatim>\<open>std::int64_t\<close>.
\<close>

theorem implied_do_index_overflows:
  "Fold 3 sampleExternals emptyContext
     (ArrayConstructor SubscriptInteger
        [ImpliedDo ''i'' (ExtentExpr 9223372036854775807) (ExtentExpr 9223372036854775807)
           (ExtentExpr 1) [ACExpr (ImpliedDoIndex ''i'')]]) =
   Inl (UndefinedBehaviour ''j += *step'') \<and>
   TripValues 9223372036854775807 9223372036854775807 1 = [9223372036854775807] \<and>
   Fold 3 sampleExternals emptyContext
     (ArrayConstructor SubscriptInteger
        [ImpliedDo ''i'' (ExtentExpr (- 9223372036854775808)) (ExtentExpr (- 9223372036854775808))
           (ExtentExpr (- 1)) [ACExpr (ImpliedDoIndex ''i'')]]) =
   Inl (UndefinedBehaviour ''j += *step'') \<and>
   TripValues (- 9223372036854775808) (- 9223372036854775808) (- 1) = [- 9223372036854775808]"
  by (simp add: numeral_3_eq_3 eval_defs TripValues_def)

section \<open>Array constructors that do not fold\<close>

lemma FoldArray_Values_append:
  "FoldArray_Values self st (pre @ xs) =
     (case FoldArray_Values self st pre of
        Inl e \<Rightarrow> Inl e
      | Inr (ok, st') \<Rightarrow> if ok then FoldArray_Values self st' xs else Inr (False, st'))"
  by (induction pre arbitrary: st) (auto split: sum.splits)

lemma walk_abandoned:
  assumes "FoldArray_Values (Fold n ext) (ctx, []) array = Inr (False, (ctx', elements))"
  shows "Fold (Suc n) ext ctx (ArrayConstructor T array) =
         Inr (ArrayConstructor T array, ctx\<lparr>messages := messages ctx'\<rparr>)"
  using assms by (simp add: FoldOperation_ArrayConstructor_def)

lemma walk_fails_at:
  assumes "FoldArray_Values self st pre = Inr (True, st1)"
    and "FoldArray_Value self st1 x = Inr (False, st2)"
  shows "FoldArray_Values self st (pre @ x # post) = Inr (False, st2)"
  using assms by (simp add: FoldArray_Values_append)

lemma element_not_constant:
  assumes "self ctx1 expr = Inr (folded, ctx2)"
    and "(case folded of Constant T' vs sh \<Rightarrow> False | _ \<Rightarrow> True)"
  shows "FoldArray_Value self (ctx1, elements) (ACExpr expr) = Inr (False, (ctx2, elements))"
  using assms by (cases folded) (simp_all add: FoldArray_Expr_def)

lemma bounds_not_constant:
  assumes "self ctx1 lower = Inr (lower', c1)"
    and "self c1 upper = Inr (upper', c2)"
    and "self c2 stride = Inr (stride', ctx2)"
    and "ToInt64 lower' = None \<or> ToInt64 upper' = None \<or> ToInt64 stride' = None \<or>
         ToInt64 stride' = Some 0"
  shows "FoldArray_Value self (ctx1, elements) (ImpliedDo name lower upper stride body) =
         Inr (False, (ctx2, elements))"
  using assms by (auto simp: FoldArray_ImpliedDo_def split: option.splits)

lemma OverIndices_append:
  "OverIndices body name (js1 @ js2) result st =
     andThen (OverIndices body name js1 result st)
       (\<lambda>(result1, st1). OverIndices body name js2 result1 st1)"
  by (induction js1 arbitrary: result st) (auto split: sum.splits)

lemma OverIndices_failed:
  "OverIndices body name js False st = Inr (result, st') \<Longrightarrow> \<not> result"
  by (induction js arbitrary: st) (auto split: sum.splits)

lemma body_fails:
  assumes "self ctx lower = Inr (lower', c1)"
    and "self c1 upper = Inr (upper', c2)"
    and "self c2 stride = Inr (stride', c3)"
    and "ToInt64 lower' = Some start" and "ToInt64 upper' = Some e" and "ToInt64 stride' = Some step"
    and "step \<noteq> 0" and "IndexInRange start e step"
    and trips: "TripValues start e step = js1 @ j # js2"
    and before: "OverIndices (\<lambda>st. FoldArray_Values self st body) name js1 True (c3, elements) =
           Inr (result1, (c4, elements4))"
    and fails: "FoldArray_Values self (StartImpliedDo name j c4, elements4) body = Inr (False, st5)"
    and after: "OverIndices (\<lambda>st. FoldArray_Values self st body) name js2 False st5 =
           Inr (result6, (c6, elements6))"
  shows "FoldArray_Value self (ctx, elements) (ImpliedDo name lower upper stride body) =
         Inr (False, (EndImpliedDo name c6, elements6))"
proof -
  have "\<not> result6" using after by (rule OverIndices_failed)
  then have "OverIndices (\<lambda>st. FoldArray_Values self st body) name (js1 @ j # js2) True
      (c3, elements) = Inr (False, (c6, elements6))"
    using before fails after by (simp add: OverIndices_append)
  then show ?thesis
    using FoldArray_ImpliedDo_unrolled [OF assms(1-6,8), of elements name body] assms(7) trips
    by simp
qed

text \<open>
  Claim C4, as amended.  When the walk of the elements of an array constructor
  fails, folding the constructor returns the constructor as it was given, with no
  subtree replaced by its folded form; the diagnostics of the walk are kept.  The
  walk of a list of values fails when, after values that were walked with success,
  the walk of a value fails.  The walk of a value fails when the value is an
  expression that does not fold to a constant; when it is an implied DO one of whose
  bounds does not fold to an integer constant or whose stride folds to zero; and
  when it is an implied DO with constant bounds, whose index can be stepped after
  each of its values, and the walk of the body fails for one of these values, the
  walks of the body for the other values returning.
\<close>

theorem array_constructor_abandoned:
  "(FoldArray_Values (Fold n ext) (ctx, []) array = Inr (False, (ctx', elements')) \<longrightarrow>
      Fold (Suc n) ext ctx (ArrayConstructor T array) =
      Inr (ArrayConstructor T array, ctx\<lparr>messages := messages ctx'\<rparr>)) \<and>
   (FoldArray_Values (Fold n ext) st pre = Inr (True, st1) \<and>
    FoldArray_Value (Fold n ext) st1 x = Inr (False, st2) \<longrightarrow>
      FoldArray_Values (Fold n ext) st (pre @ x # post) = Inr (False, st2)) \<and>
   (Fold n ext ctx1 expr = Inr (folded, ctx2) \<and>
    (case folded of Constant T' vs sh \<Rightarrow> False | _ \<Rightarrow> True) \<longrightarrow>
      FoldArray_Value (Fold n ext) (ctx1, elements) (ACExpr expr) =
      Inr (False, (ctx2, elements))) \<and>
   (Fold n ext ctx1 lower = Inr (lower', c1) \<and> Fold n ext c1 upper = Inr (upper', c2) \<and>
    Fold n ext c2 stride = Inr (stride', c3) \<and>
    (ToInt64 lower' = None \<or> ToInt64 upper' = None \<or> ToInt64 stride' = None \<or>
     ToInt64 stride' = Some 0) \<longrightarrow>
      FoldArray_Value (Fold n ext) (ctx1, elements) (ImpliedDo name lower upper stride body) =
      Inr (False, (c3, elements))) \<and>
   (Fold n ext ctx1 lower = Inr (lower', c1) \<and> Fold n ext c1 upper = Inr (upper', c2) \<and>
    Fold n ext c2 stride = Inr (stride', c3) \<and>
    ToInt64 lower' = Some start \<and> ToInt64 upper' = Some e \<and> ToInt64 stride' = Some step \<and>
    step \<noteq> 0 \<and> IndexInRange start e step \<and> TripValues start e step = js1 @ j # js2 \<and>
    OverIndices (\<lambda>st. FoldArray_Values (Fold n ext) st body) name js1 True (c3, elements) =
      Inr (result1, (c4, elements4)) \<and>
    FoldArray_Values (Fold n ext) (StartImpliedDo name j c4, elements4) body = Inr (False, st5) \<and>
    OverIndices (\<lambda>st. FoldArray_Values (Fold n ext) st body) name js2 False st5 =
      Inr (result6, (c6, elements6)) \<longrightarrow>
      FoldArray_Value (Fold n ext) (ctx1, elements) (ImpliedDo name lower upper stride body) =
      Inr (False, (EndImpliedDo name c6, elements6)))"
proof (intro conjI impI)
  assume "FoldArray_Values (Fold n ext) (ctx, []) array = Inr (False, (ctx', elements'))"
  then show "Fold (Suc n) ext ctx (ArrayConstructor T array) =
      Inr (ArrayConstructor T array, ctx\<lparr>messages := messages ctx'\<rparr>)"
    by (rule walk_abandoned)
next
  assume "FoldArray_Values (Fold n ext) st pre = Inr (True, st1) \<and>
    FoldArray_Value (Fold n ext) st1 x = Inr (False, st2)"
  then show "FoldArray_Values (Fold n ext) st (pre @ x # post) = Inr (False, st2)"
    by (elim conjE) (rule walk_fails_at)
next
  assume "Fold n ext ctx1 expr = Inr (folded, ctx2) \<and>
      (case folded of Constant T' vs sh \<Rightarrow> False | _ \<Rightarrow> True)"
  then show "FoldArray_Value (Fold n ext) (ctx1, elements) (ACExpr expr) =
      Inr (False, (ctx2, elements))"
    by (elim conjE) (rule element_not_constant)
next
  assume "Fold n ext ctx1 lower = Inr (lower', c1) \<and> Fold n ext c1 upper = Inr (upper', c2) \<and>
      Fold n ext c2 stride = Inr (stride', c3) \<and>
      (ToInt64 lower' = None \<or> ToInt64 upper' = None \<or> ToInt64 stride' = None \<or>
       ToInt64 stride' = Some 0)"
  then show "FoldArray_Value (Fold n ext) (ctx1, elements)
      (ImpliedDo name lower upper stride body) = Inr (False, (c3, elements))"
    by (elim conjE) (rule bounds_not_constant)
next
  assume "Fold n ext ctx1 lower = Inr (lower', c1) \<and> Fold n ext c1 upper = Inr (upper', c2) \<and>
    Fold n ext c2 stride = Inr (stride', c3) \<and>
    ToInt64 lower' = Some start \<and> ToInt64 upper' = Some e \<and> ToInt64 stride' = Some step \<and>
    step \<noteq> 0 \<and> IndexInRange start e step \<and> TripValues start e step = js1 @ j # js2 \<and>
    OverIndices (\<lambda>st. FoldArray_Values (Fold n ext) st body) name js1 True (c3, elements) =
      Inr (result1, (c4, elements4)) \<and>
    FoldArray_Values (Fold n ext) (StartImpliedDo name j c4, elements4) body = Inr (False, st5) \<and>
    OverIndices (\<lambda>st. FoldArray_Values (Fold n ext) st body) name js2 False st5 =
      Inr (result6, (c6, elements6))"
  then show "FoldArray_Value (Fold n ext) (ctx1, elements)
      (ImpliedDo name lower upper stride body) = Inr (False, (EndImpliedDo name c6, elements6))"
    by (elim conjE) (rule body_fails)
qed

theorem array_constructor_abandoned_witness:
  "Fold 3 sampleExternals emptyContext
     (ArrayConstructor Int4
        [ACExpr (Add Int4 (Constant Int4 [IntegerValue 1] []) (Constant Int4 [IntegerValue 2] [])),
         ACExpr (Designator Int4 (SymbolRef (Symbol ''x'' [])))]) =
   Inr (ArrayConstructor Int4
        [ACExpr (Add Int4 (Constant Int4 [IntegerValue 1] []) (Constant Int4 [IntegerValue 2] [])),
         ACExpr (Designator Int4 (SymbolRef (Symbol ''x'' [])))], emptyContext) \<and>
   Fold 3 sampleExternals emptyContext
     (ArrayConstructor Int4
        [ImpliedDo ''i'' (ExtentExpr 1) (ExtentExpr 3) (ExtentExpr 1)
           [ACExpr (Constant Int4 [IntegerValue 7] []),
            ACExpr (Designator Int4 (SymbolRef (Symbol ''x'' [])))]]) =
   Inr (ArrayConstructor Int4
        [ImpliedDo ''i'' (ExtentExpr 1) (ExtentExpr 3) (ExtentExpr 1)
           [ACExpr (Constant Int4 [IntegerValue 7] []),
            ACExpr (Designator Int4 (SymbolRef (Symbol ''x'' [])))]], emptyContext)"
proof (intro conjI)
  let ?sum = "Add Int4 (Constant Int4 [IntegerValue 1] []) (Constant Int4 [IntegerValue 2] [])"
  let ?x = "Designator Int4 (SymbolRef (Symbol ''x'' []))"
  let ?self = "Fold 2 sampleExternals"
  have pre: "FoldArray_Values ?self (emptyContext, []) [ACExpr ?sum] =
      Inr (True, (emptyContext, [IntegerValue 3]))"
    by (simp add: numeral_eq_Suc eval_defs)
  have x: "?self emptyContext ?x = Inr (?x, emptyContext)"
    by (simp add: numeral_eq_Suc eval_defs)
  note rules = array_constructor_abandoned [where n = 2 and ext = sampleExternals]
  from rules [where expr = ?x and elements = "[IntegerValue 3]" and ?ctx1.0 = emptyContext
      and folded = ?x and ?ctx2.0 = emptyContext,
      THEN conjunct2, THEN conjunct2, THEN conjunct1] x
  have "FoldArray_Value ?self (emptyContext, [IntegerValue 3]) (ACExpr ?x) =
      Inr (False, (emptyContext, [IntegerValue 3]))"
    by simp
  with rules [where pre = "[ACExpr ?sum]" and x = "ACExpr ?x" and post = "[]"
      and st = "(emptyContext, [])" and ?st1.0 = "(emptyContext, [IntegerValue 3])"
      and ?st2.0 = "(emptyContext, [IntegerValue 3])", THEN conjunct2, THEN conjunct1] pre
  have "FoldArray_Values ?self (emptyContext, []) [ACExpr ?sum, ACExpr ?x] =
      Inr (False, (emptyContext, [IntegerValue 3]))"
    by simp
  with rules [where ctx = emptyContext and T = Int4 and array = "[ACExpr ?sum, ACExpr ?x]"
      and ctx' = emptyContext and elements' = "[IntegerValue 3]", THEN conjunct1]
  show "Fold 3 sampleExternals emptyContext (ArrayConstructor Int4 [ACExpr ?sum, ACExpr ?x]) =
      Inr (ArrayConstructor Int4 [ACExpr ?sum, ACExpr ?x], emptyContext)"
    by (simp add: numeral_3_eq_3 numeral_2_eq_2 emptyContext_def)
next
  let ?x = "Designator Int4 (SymbolRef (Symbol ''x'' []))"
  let ?body = "[ACExpr (Constant Int4 [IntegerValue 7] []), ACExpr ?x]"
  let ?do = "ImpliedDo ''i'' (ExtentExpr 1) (ExtentExpr 3) (ExtentExpr 1) ?body"
  let ?self = "Fold 2 sampleExternals"
  have f: "\<And>v. ?self emptyContext (ExtentExpr v) = Inr (ExtentExpr v, emptyContext)"
    by (simp add: numeral_eq_Suc ExtentExpr_def)
  have t: "\<And>v. ToInt64 (ExtentExpr v) = Some v"
    by (simp add: ExtentExpr_def)
  have trips: "TripValues 1 3 1 = [] @ 1 # [2, 3]"
    by (simp add: TripValues_def upt_rec)
  have range: "IndexInRange 1 3 1"
    by (simp add: IndexInRange_def TripValues_def upt_rec Int64_def)
  have before: "OverIndices (\<lambda>st. FoldArray_Values ?self st ?body) ''i'' [] True
      (emptyContext, []) = Inr (True, (emptyContext, []))"
    by simp
  have x: "\<And>c. ?self c ?x = Inr (?x, c)"
    by (simp add: numeral_eq_Suc eval_defs)
  have seven: "FoldArray_Values ?self (StartImpliedDo ''i'' 1 emptyContext, [])
      [ACExpr (Constant Int4 [IntegerValue 7] [])] =
      Inr (True, (StartImpliedDo ''i'' 1 emptyContext, [IntegerValue 7]))"
    by (simp add: numeral_eq_Suc eval_defs)
  note rules = array_constructor_abandoned [where n = 2 and ext = sampleExternals]
  from rules [where expr = ?x and elements = "[IntegerValue 7]"
      and ?ctx1.0 = "StartImpliedDo ''i'' 1 emptyContext" and folded = ?x
      and ?ctx2.0 = "StartImpliedDo ''i'' 1 emptyContext",
      THEN conjunct2, THEN conjunct2, THEN conjunct1] x
  have "FoldArray_Value ?self (StartImpliedDo ''i'' 1 emptyContext, [IntegerValue 7]) (ACExpr ?x) =
      Inr (False, (StartImpliedDo ''i'' 1 emptyContext, [IntegerValue 7]))"
    by simp
  with rules [where pre = "[ACExpr (Constant Int4 [IntegerValue 7] [])]" and x = "ACExpr ?x"
      and post = "[]" and st = "(StartImpliedDo ''i'' 1 emptyContext, [])"
      and ?st1.0 = "(StartImpliedDo ''i'' 1 emptyContext, [IntegerValue 7])"
      and ?st2.0 = "(StartImpliedDo ''i'' 1 emptyContext, [IntegerValue 7])",
      THEN conjunct2, THEN conjunct1] seven
  have fails: "FoldArray_Values ?self (StartImpliedDo ''i'' 1 emptyContext, []) ?body =
      Inr (False, (StartImpliedDo ''i'' 1 emptyContext, [IntegerValue 7]))"
    by simp
  have after: "OverIndices (\<lambda>st. FoldArray_Values ?self st ?body) ''i'' [2, 3] False
      (StartImpliedDo ''i'' 1 emptyContext, [IntegerValue 7]) =
      Inr (False, (StartImpliedDo ''i'' 3 emptyContext,
                   [IntegerValue 7, IntegerValue 7, IntegerValue 7]))"
    by (simp add: numeral_eq_Suc eval_defs)
  from rules [where body = ?body and name = "''i''" and ?js1.0 = "[]" and j = 1
      and ?js2.0 = "[2, 3]" and ?ctx1.0 = emptyContext and elements = "[]"
      and lower = "ExtentExpr 1" and upper = "ExtentExpr 3" and stride = "ExtentExpr 1"
      and lower' = "ExtentExpr 1" and upper' = "ExtentExpr 3" and stride' = "ExtentExpr 1"
      and ?c1.0 = emptyContext and ?c2.0 = emptyContext and ?c3.0 = emptyContext
      and start = 1 and e = 3 and step = 1 and ?result1.0 = True and ?c4.0 = emptyContext
      and ?elements4.0 = "[]" and ?st5.0 = "(StartImpliedDo ''i'' 1 emptyContext, [IntegerValue 7])"
      and ?result6.0 = False and ?c6.0 = "StartImpliedDo ''i'' 3 emptyContext"
      and ?elements6.0 = "[IntegerValue 7, IntegerValue 7, IntegerValue 7]",
      THEN conjunct2, THEN conjunct2, THEN conjunct2, THEN conjunct2]
    f t trips range before fails after
  have "FoldArray_Value ?self (emptyContext, []) ?do =
      Inr (False, (EndImpliedDo ''i'' (StartImpliedDo ''i'' 3 emptyContext),
                   [IntegerValue 7, IntegerValue 7, IntegerValue 7]))"
    by simp
  with rules [where pre = "[]" and x = ?do and post = "[]" and st = "(emptyContext, [])"
      and ?st1.0 = "(emptyContext, [])"
      and ?st2.0 = "(EndImpliedDo ''i'' (StartImpliedDo ''i'' 3 emptyContext),
                   [IntegerValue 7, IntegerValue 7, IntegerValue 7])",
      THEN conjunct2, THEN conjunct1]
  have "FoldArray_Values ?self (emptyContext, []) [?do] =
      Inr (False, (EndImpliedDo ''i'' (StartImpliedDo ''i'' 3 emptyContext),
                   [IntegerValue 7, IntegerValue 7, IntegerValue 7]))"
    by simp
  with rules [where ctx = emptyContext and T = Int4 and array = "[?do]"
      and ctx' = "EndImpliedDo ''i'' (StartImpliedDo ''i'' 3 emptyContext)"
      and elements' = "[IntegerValue 7, IntegerValue 7, IntegerValue 7]", THEN conjunct1]
  show "Fold 3 sampleExternals emptyContext (ArrayConstructor Int4 [?do]) =
      Inr (ArrayConstructor Int4 [?do], emptyContext)"
    by (simp add: numeral_3_eq_3 numeral_2_eq_2 emptyContext_def EndImpliedDo_def
        StartImpliedDo_def)
qed

text \<open>
  The claim as it was stated fails at \<open>[1 + 2, x]\<close>: the constructor comes back with
  \<open>1 + 2\<close> in it, although \<open>1 + 2\<close> folds to \<open>3\<close>.  It also fails at
  \<open>[(x, i = 5, 1)]\<close>, which holds an element that does not fold to a constant and
  folds to the empty constant, the body of the loop never being walked.
\<close>

theorem array_constructor_subtrees_counterexample:
  "Fold 3 sampleExternals emptyContext
     (ArrayConstructor Int4
        [ACExpr (Add Int4 (Constant Int4 [IntegerValue 1] []) (Constant Int4 [IntegerValue 2] [])),
         ACExpr (Designator Int4 (SymbolRef (Symbol ''x'' [])))]) =
   Inr (ArrayConstructor Int4
        [ACExpr (Add Int4 (Constant Int4 [IntegerValue 1] []) (Constant Int4 [IntegerValue 2] [])),
         ACExpr (Designator Int4 (SymbolRef (Symbol ''x'' [])))], emptyContext) \<and>
   Fold 2 sampleExternals emptyContext
     (Add Int4 (Constant Int4 [IntegerValue 1] []) (Constant Int4 [IntegerValue 2] [])) =
   Inr (Constant Int4 [IntegerValue 3] [], emptyContext) \<and>
   Fold 3 sampleExternals emptyContext
     (ArrayConstructor Int4
        [ImpliedDo ''i'' (ExtentExpr 5) (ExtentExpr 1) (ExtentExpr 1)
           [ACExpr (Designator Int4 (SymbolRef (Symbol ''x'' [])))]]) =
   Inr (Constant Int4 [] [0], emptyContext)"
  by (simp add: numeral_eq_Suc eval_defs)

section \<open>Binary operations on arrays of different shapes\<close>

text \<open>
  Claim C1.  \<^verbatim>\<open>ApplyElementwise\<close> calls \<^verbatim>\<open>CheckConformance\<close> and goes on to
  \<^verbatim>\<open>MapOperation\<close> whatever it returns.  For \<open>[1, 2, 3] + [1, 2]\<close> the diagnostic is
  written and \<^verbatim>\<open>MapOperation\<close> then fails its \<^verbatim>\<open>CHECK\<close> on the right iterator, which
  aborts; for \<open>[1, 2] + [1, 2, 3]\<close> the diagnostic is written and the result is the
  constant array \<open>[2, 4]\<close>.  In neither case is the operation returned unfolded.
\<close>

theorem nonconforming_add_evaluated:
  "Fold 4 sampleExternals emptyContext
     (Add Int4 (Constant Int4 [IntegerValue 1, IntegerValue 2, IntegerValue 3] [3])
               (Constant Int4 [IntegerValue 1, IntegerValue 2] [2])) =
   Inl (CheckFailed ''rightIter != rightArrConst.end()'') \<and>
   Fold 4 sampleExternals emptyContext
     (Add Int4 (Constant Int4 [IntegerValue 1, IntegerValue 2] [2])
               (Constant Int4 [IntegerValue 1, IntegerValue 2, IntegerValue 3] [3])) =
   Inr (Constant Int4 [IntegerValue 2, IntegerValue 4] [2],
        Say (Message True ''shapes are not conformable'' []) emptyContext)"
  by (simp add: numeral_eq_Suc eval_defs)

section \<open>Idempotence\<close>

text \<open>
  Claim C5.  The \<^verbatim>\<open>size\<close> branch, with \<^verbatim>\<open>DIM=\<close> absent, folds the product of the
  extents and converts it afterwards, so for a result type other than
  \<open>SubscriptInteger\<close> the fold returns a conversion of a constant, which a second
  fold reduces: \<open>size\<close> of a constant array of shape \<open>[2, 3]\<close>, of type \<open>INTEGER(4)\<close>,
  folds to \<open>Convert(6_8)\<close>, and that folds to \<open>6_4\<close>.
\<close>

theorem fold_not_idempotent_on_size:
  "Fold 5 sampleExternals emptyContext
     (FunctionRef Int4 (SpecificIntrinsic ''size'' 0)
        [Some (Constant Int4 (map IntegerValue [1, 2, 3, 4, 5, 6]) [2, 3]), None, None]) =
   Inr (Convert Int4 (Constant SubscriptInteger [IntegerValue 6] []), emptyContext) \<and>
   Fold 5 sampleExternals emptyContext
     (Convert Int4 (Constant SubscriptInteger [IntegerValue 6] [])) =
   Inr (Constant Int4 [IntegerValue 6] [], emptyContext)"
  by (simp add: numeral_eq_Suc eval_defs)

section \<open>Elemental intrinsic functions\<close>

lemma ResultShape_positive:
  "rank \<noteq> 0 \<Longrightarrow>
   ResultShape cs rank shape =
     (if list_all (\<lambda>c. snd c = [] \<or> snd c = shape) cs then Some (rank, shape) else None)"
  by (induction cs rank shape rule: ResultShape.induct) auto

lemma ResultShape_conforming:
  assumes "list_all (\<lambda>c. snd c = [] \<or> snd c = shape) cs"
    and "shape = [] \<or> list_ex (\<lambda>c. snd c = shape) cs"
  shows "ResultShape cs 0 [] = Some (int (length shape), shape)"
  using assms
proof (induction cs)
  case Nil
  then show ?case by simp
next
  case (Cons c cs)
  obtain vs sh where c: "c = (vs, sh)" by (cases c)
  show ?case
  proof (cases "sh = []")
    case True
    with Cons c show ?thesis by auto
  next
    case False
    with Cons.prems c have "sh = shape" by simp
    with False Cons.prems c show ?thesis by (simp add: ResultShape_positive)
  qed
qed

lemma ResultShape_mismatch:
  assumes "c \<in> set cs" "d \<in> set cs" "snd c \<noteq> []" "snd d \<noteq> []" "snd c \<noteq> snd d"
  shows "ResultShape cs 0 [] = None"
  using assms
proof (induction cs)
  case Nil
  then show ?case by simp
next
  case (Cons x xs)
  obtain vs sh where x: "x = (vs, sh)" by (cases x)
  show ?case
  proof (cases "sh = []")
    case True
    with Cons x have "c \<in> set xs" "d \<in> set xs" by auto
    with Cons True x show ?thesis by simp
  next
    case False
    have "\<not> list_all (\<lambda>c. snd c = [] \<or> snd c = sh) xs"
    proof
      assume a: "list_all (\<lambda>c. snd c = [] \<or> snd c = sh) xs"
      have "snd c = sh" using Cons.prems a x False by (auto simp: list_all_iff)
      moreover have "snd d = sh" using Cons.prems a x False by (auto simp: list_all_iff)
      ultimately show False using Cons.prems by simp
    qed
    with False x show ?thesis by (simp add: ResultShape_positive)
  qed
qed

lemma AllElementsPresent_all:
  "\<forall>x\<in>set xs. f x \<noteq> None \<Longrightarrow> AllElementsPresent (map f xs) = Some (map (\<lambda>x. the (f x)) xs)"
  by (simp add: AllElementsPresent_def list_all_iff comp_def)

lemma ElementalLoop_results:
  assumes "\<forall>p\<in>set ps. \<forall>c\<in>set cs. At c p \<noteq> None"
    and "\<forall>p\<in>set ps. \<forall>c. \<exists>r c'. func c (map (\<lambda>a. the (At a p)) cs) = Inr (r, c')"
  shows "\<exists>results ctx'. ElementalLoop func cs ps ctx acc = Inr (acc @ results, ctx') \<and>
           length results = length ps \<and>
           (\<forall>i<length ps. \<exists>c c'. func c (map (\<lambda>a. the (At a (ps ! i))) cs) = Inr (results ! i, c'))"
  using assms
proof (induction ps arbitrary: ctx acc)
  case Nil
  then show ?case by simp
next
  case (Cons p ps)
  from Cons.prems obtain r c1 where r: "func ctx (map (\<lambda>a. the (At a p)) cs) = Inr (r, c1)"
    by (metis list.set_intros(1))
  have present: "AllElementsPresent (map (\<lambda>c. At c p) cs) = Some (map (\<lambda>a. the (At a p)) cs)"
    using Cons.prems by (intro AllElementsPresent_all) simp
  from Cons.prems have "\<forall>q\<in>set ps. \<forall>c\<in>set cs. At c q \<noteq> None"
    and "\<forall>q\<in>set ps. \<forall>c. \<exists>r c'. func c (map (\<lambda>a. the (At a q)) cs) = Inr (r, c')"
    by simp_all
  from Cons.IH [OF this, of c1 "acc @ [r]"] obtain results ctx' where
    rec: "ElementalLoop func cs ps c1 (acc @ [r]) = Inr ((acc @ [r]) @ results, ctx')"
    and len: "length results = length ps"
    and each: "\<forall>i<length ps. \<exists>c c'. func c (map (\<lambda>a. the (At a (ps ! i))) cs) = Inr (results ! i, c')"
    by blast
  have "ElementalLoop func cs (p # ps) ctx acc = Inr (acc @ (r # results), ctx')"
    using present r rec by simp
  moreover have "length (r # results) = length (p # ps)" using len by simp
  moreover have "\<forall>i<length (p # ps). \<exists>c c'.
      func c (map (\<lambda>a. the (At a ((p # ps) ! i))) cs) = Inr ((r # results) ! i, c')"
  proof (intro allI impI)
    fix i assume "i < length (p # ps)"
    then show "\<exists>c c'. func c (map (\<lambda>a. the (At a ((p # ps) ! i))) cs) = Inr ((r # results) ! i, c')"
      using r each by (cases i) auto
  qed
  ultimately show ?case by blast
qed

lemma At_in_range:
  assumes "length (fst c) = nat (prod_list (snd c))"
    and "snd c = [] \<or> snd c = shape"
    and "p < nat (prod_list shape)"
  shows "At c p = Some (if snd c = [] then fst c ! 0 else fst c ! p)"
  using assms by (auto simp: At_def Let_def)

lemma helper_mismatch:
  assumes "ConstantArguments TAs arguments = Inr (map Some cs)"
    and "c \<in> set cs" "d \<in> set cs" "snd c \<noteq> []" "snd d \<noteq> []" "snd c \<noteq> snd d"
  shows "FoldElementalIntrinsicHelper ctx TR proc arguments TAs func =
         Inr (FunctionRef TR proc arguments,
              Say (Message True ''arguments in elemental intrinsic function are not conformable'' [])
                ctx)"
  using assms(1) ResultShape_mismatch [OF assms(2-6)]
  by (simp add: FoldElementalIntrinsicHelper_def)

lemma helper_conforming:
  assumes args: "ConstantArguments TAs arguments = Inr (map Some cs)"
    and conf: "\<forall>c\<in>set cs. snd c = [] \<or> snd c = shape"
    and some: "shape = [] \<or> (\<exists>c\<in>set cs. snd c = shape)"
    and wf: "\<forall>c\<in>set cs. length (fst c) = nat (prod_list (snd c))"
    and succ: "\<forall>p<nat (prod_list shape). \<forall>c. \<exists>r c'.
        func c (map (\<lambda>a. if snd a = [] then fst a ! 0 else fst a ! p) cs) = Inr (r, c')"
  shows "\<exists>results ctx'.
           FoldElementalIntrinsicHelper ctx TR proc arguments TAs func =
             Inr (Constant TR results shape, ctx') \<and>
           length results = nat (prod_list shape) \<and>
           (\<forall>p<nat (prod_list shape). \<exists>c c'.
              func c (map (\<lambda>a. if snd a = [] then fst a ! 0 else fst a ! p) cs) =
                Inr (results ! p, c'))"
proof -
  have rs: "ResultShape cs 0 [] = Some (int (length shape), shape)"
    using conf some by (intro ResultShape_conforming) (auto simp: list_all_iff list_ex_iff)
  have at: "\<And>p a. p < nat (prod_list shape) \<Longrightarrow> a \<in> set cs \<Longrightarrow>
      At a p = Some (if snd a = [] then fst a ! 0 else fst a ! p)"
    using conf wf by (intro At_in_range) auto
  have eq: "\<And>p. p < nat (prod_list shape) \<Longrightarrow>
      map (\<lambda>a. the (At a p)) cs = map (\<lambda>a. if snd a = [] then fst a ! 0 else fst a ! p) cs"
    using at by simp
  have 1: "\<forall>p\<in>set [0 ..< nat (prod_list shape)]. \<forall>c\<in>set cs. At c p \<noteq> None"
    using at by simp
  have 2: "\<forall>p\<in>set [0 ..< nat (prod_list shape)]. \<forall>c. \<exists>r c'.
      func c (map (\<lambda>a. the (At a p)) cs) = Inr (r, c')"
  proof (intro ballI allI)
    fix p c
    assume "p \<in> set [0 ..< nat (prod_list shape)]"
    then have p: "p < nat (prod_list shape)" by simp
    from succ p obtain r c' where
      "func c (map (\<lambda>a. if snd a = [] then fst a ! 0 else fst a ! p) cs) = Inr (r, c')"
      by blast
    then show "\<exists>r c'. func c (map (\<lambda>a. the (At a p)) cs) = Inr (r, c')"
      unfolding eq [OF p] by blast
  qed
  from ElementalLoop_results [OF 1 2, of ctx "[]"] obtain results ctx' where
    loop: "ElementalLoop func cs [0 ..< nat (prod_list shape)] ctx [] = Inr (results, ctx')"
    and len: "length results = nat (prod_list shape)"
    and each: "\<forall>i<nat (prod_list shape). \<exists>c c'.
        func c (map (\<lambda>a. the (At a ([0 ..< nat (prod_list shape)] ! i))) cs) = Inr (results ! i, c')"
    by auto
  have "FoldElementalIntrinsicHelper ctx TR proc arguments TAs func =
      Inr (Constant TR results shape, ctx')"
    using args rs loop by (simp add: FoldElementalIntrinsicHelper_def TotalElementCount_def)
  moreover have "\<forall>p<nat (prod_list shape). \<exists>c c'.
      func c (map (\<lambda>a. if snd a = [] then fst a ! 0 else fst a ! p) cs) = Inr (results ! p, c')"
  proof (intro allI impI)
    fix p
    assume p: "p < nat (prod_list shape)"
    with each obtain c c' where
      "func c (map (\<lambda>a. the (At a ([0 ..< nat (prod_list shape)] ! p))) cs) = Inr (results ! p, c')"
      by blast
    with p have "func c (map (\<lambda>a. the (At a p)) cs) = Inr (results ! p, c')"
      by simp
    then show "\<exists>c c'. func c (map (\<lambda>a. if snd a = [] then fst a ! 0 else fst a ! p) cs) =
        Inr (results ! p, c')"
      unfolding eq [OF p] by blast
  qed
  ultimately show ?thesis using len by blast
qed

lemma Fold_dim:
  "Fold (Suc n) ext ctx (FunctionRef (Type Integer k) (SpecificIntrinsic ''dim'' r) arguments) =
   FoldElementalIntrinsicHelper ctx (Type Integer k) (SpecificIntrinsic ''dim'' r) arguments
     [Type Integer k, Type Integer k] (dim_func k)"
  by (simp add: FoldOperation_FunctionRef_def FoldOperation_FunctionRef_Integer_def Let_def)


lemma Fold_abs:
  "Fold (Suc n) ext ctx (FunctionRef (Type Integer k) (SpecificIntrinsic ''abs'' r) arguments) =
   FoldElementalIntrinsicHelper ctx (Type Integer k) (SpecificIntrinsic ''abs'' r) arguments
     [Type Integer k] (abs_func k)"
  by (simp add: FoldOperation_FunctionRef_def FoldOperation_FunctionRef_Integer_def Let_def)

text \<open>
  Claim C10.  \<^verbatim>\<open>FoldOperation(FoldingContext &, FunctionRef<Type<Integer, KIND>> &&)\<close>
  opens with a loop that assigns to each argument the result of \<^verbatim>\<open>FoldOperation\<close>
  on it, which for an expression is the no-op base case: no argument is folded.
  The helper then unwraps each argument to a constant and, when one is not a
  constant, returns the call as it is.  So \<open>dim([5, 2], - (3))\<close>, whose second
  argument folds to the constant \<open>- 3\<close> and whose shapes conform, is returned
  unfolded, where \<open>dim([5, 2], - 3)\<close> folds to the constant \<open>[8, 5]\<close> of shape \<open>[2]\<close>;
  and \<open>abs(- x)\<close> is returned unfolded for every \<open>x\<close>.
\<close>

theorem elemental_arguments_not_folded:
  "Fold (Suc (Suc n)) ext ctx (Negate Int4 (Constant Int4 [IntegerValue 3] [])) =
   Inr (Constant Int4 [IntegerValue (- 3)] [], ctx) \<and>
   Fold (Suc n) ext ctx
     (FunctionRef Int4 (SpecificIntrinsic ''dim'' 0)
        [Some (Constant Int4 [IntegerValue 5, IntegerValue 2] [2]),
         Some (Negate Int4 (Constant Int4 [IntegerValue 3] []))]) =
   Inr (FunctionRef Int4 (SpecificIntrinsic ''dim'' 0)
          [Some (Constant Int4 [IntegerValue 5, IntegerValue 2] [2]),
           Some (Negate Int4 (Constant Int4 [IntegerValue 3] []))], ctx) \<and>
   Fold (Suc n) ext ctx
     (FunctionRef Int4 (SpecificIntrinsic ''dim'' 0)
        [Some (Constant Int4 [IntegerValue 5, IntegerValue 2] [2]),
         Some (Constant Int4 [IntegerValue (- 3)] [])]) =
   Inr (Constant Int4 [IntegerValue 8, IntegerValue 5] [2], ctx) \<and>
   Fold (Suc n) ext ctx
     (FunctionRef (Type Integer k) (SpecificIntrinsic ''abs'' r) [Some (Negate T x)]) =
   Inr (FunctionRef (Type Integer k) (SpecificIntrinsic ''abs'' r) [Some (Negate T x)], ctx)"
proof (intro conjI)
  show "Fold (Suc (Suc n)) ext ctx (Negate Int4 (Constant Int4 [IntegerValue 3] [])) =
      Inr (Constant Int4 [IntegerValue (- 3)] [], ctx)"
    by (simp add: FoldOperation_Negate_def ApplyElementwise_unary_def IntegerResult_def
        NegateSigned_def wrap_def bits_def)
next
  show "Fold (Suc n) ext ctx
     (FunctionRef Int4 (SpecificIntrinsic ''dim'' 0)
        [Some (Constant Int4 [IntegerValue 5, IntegerValue 2] [2]),
         Some (Negate Int4 (Constant Int4 [IntegerValue 3] []))]) =
   Inr (FunctionRef Int4 (SpecificIntrinsic ''dim'' 0)
          [Some (Constant Int4 [IntegerValue 5, IntegerValue 2] [2]),
           Some (Negate Int4 (Constant Int4 [IntegerValue 3] []))], ctx)"
    unfolding Fold_dim
    by (simp add: FoldElementalIntrinsicHelper_def AllElementsPresent_def)
next
  show "Fold (Suc n) ext ctx
     (FunctionRef Int4 (SpecificIntrinsic ''dim'' 0)
        [Some (Constant Int4 [IntegerValue 5, IntegerValue 2] [2]),
         Some (Constant Int4 [IntegerValue (- 3)] [])]) =
   Inr (Constant Int4 [IntegerValue 8, IntegerValue 5] [2], ctx)"
    unfolding Fold_dim
    by (simp add: FoldElementalIntrinsicHelper_def AllElementsPresent_def TotalElementCount_def
        At_def dim_func_def DIM_def wrap_def bits_def upt_rec numeral_2_eq_2)
next
  show "Fold (Suc n) ext ctx
     (FunctionRef (Type Integer k) (SpecificIntrinsic ''abs'' r) [Some (Negate T x)]) =
   Inr (FunctionRef (Type Integer k) (SpecificIntrinsic ''abs'' r) [Some (Negate T x)], ctx)"
    unfolding Fold_abs
    by (simp add: FoldElementalIntrinsicHelper_def AllElementsPresent_def)
qed

section \<open>The size intrinsic\<close>

lemma FoldOperation_Multiply_constants:
  assumes "self ctx l = Inr (Constant Tl [IntegerValue a] [], ctx1)"
    and "self ctx1 r = Inr (Constant Tr [IntegerValue b] [], ctx2)"
  shows "FoldOperation_Multiply self ctx (Type Integer k) l r =
         IntegerResult (Type Integer k) (MultiplySigned k a b)
           (Message False ''INTEGER(%d) multiplication overflowed'' [IntArg (int k)]) ctx2"
  using assms
  by (simp add: FoldOperation_Multiply_def ApplyElementwise_binary_def OperandsAreConstants_def
      IntegerOperands_def)

lemma product_folds:
  assumes "length es < n"
    and "\<forall>i\<le>length es. wrap 8 (prod_list (take i es)) = prod_list (take i es)"
  shows "Fold n ext ctx (foldl (Multiply SubscriptInteger) (ExtentExpr 1) (map ExtentExpr es)) =
         Inr (ExtentExpr (prod_list es), ctx)"
  using assms
proof (induction es arbitrary: n rule: rev_induct)
  case Nil
  then obtain m where "n = Suc m" by (cases n) auto
  then show ?case by (simp add: ExtentExpr_def)
next
  case (snoc x xs)
  then obtain m where n: "n = Suc m" and m: "length xs < m" by (cases n) auto
  then obtain m' where m': "m = Suc m'" by (cases m) auto
  have "\<forall>i\<le>length xs. wrap 8 (prod_list (take i xs)) = prod_list (take i xs)"
  proof (intro allI impI)
    fix i assume "i \<le> length xs"
    with snoc.prems(2) [rule_format, of i] show "wrap 8 (prod_list (take i xs)) = prod_list (take i xs)"
      by simp
  qed
  from snoc.IH [OF m this]
  have left: "Fold m ext ctx (foldl (Multiply SubscriptInteger) (ExtentExpr 1) (map ExtentExpr xs)) =
      Inr (ExtentExpr (prod_list xs), ctx)" .
  have fit: "wrap 8 (prod_list xs * x) = prod_list xs * x"
    using snoc.prems(2) [rule_format, of "Suc (length xs)"] by simp
  have right: "Fold m ext ctx (ExtentExpr x) = Inr (ExtentExpr x, ctx)"
    by (simp add: m' ExtentExpr_def)
  have "Fold n ext ctx
      (foldl (Multiply SubscriptInteger) (ExtentExpr 1) (map ExtentExpr (xs @ [x]))) =
    FoldOperation_Multiply (Fold m ext) ctx SubscriptInteger
      (foldl (Multiply SubscriptInteger) (ExtentExpr 1) (map ExtentExpr xs)) (ExtentExpr x)"
    by (simp add: n)
  also have "\<dots> = IntegerResult SubscriptInteger (MultiplySigned 8 (prod_list xs) x)
      (Message False ''INTEGER(%d) multiplication overflowed'' [IntArg (int 8)]) ctx"
    unfolding ExtentExpr_def
    by (rule FoldOperation_Multiply_constants [where self = "Fold m ext" and ctx = ctx
          and ?ctx1.0 = ctx and ?ctx2.0 = ctx and k = 8, OF left [unfolded ExtentExpr_def]
          right [unfolded ExtentExpr_def]])
  also have "\<dots> = Inr (ExtentExpr (prod_list (xs @ [x])), ctx)"
    using fit by (simp add: IntegerResult_def MultiplySigned_def ExtentExpr_def)
  finally show ?case .
qed

lemma Fold_ConvertToType_extent:
  assumes "wrap k x = x"
  shows "Fold (Suc (Suc n)) ext ctx (ConvertToType (Type Integer k) (ExtentExpr x)) =
         Inr (Constant (Type Integer k) [IntegerValue x] [], ctx)"
proof (cases "k = 8")
  case True
  then show ?thesis by (simp add: ConvertToType_def ExtentExpr_def)
next
  case False
  then show ?thesis
    using assms
    by (simp add: ConvertToType_def ExtentExpr_def FoldOperation_Convert_def
        ApplyElementwise_unary_def IntegerResult_def ConvertSigned_def)
qed

lemma size_with_dim:
  assumes "GetShape a = Inr (Some shape)"
    and "ToInt64 d = Some dim"
    and "1 \<le> dim" "dim \<le> int (length shape)" "shape ! nat (dim - 1) = Some extent"
  shows "Fold (Suc n) ext ctx
           (FunctionRef (Type Integer k) (SpecificIntrinsic ''size'' r) (Some a # Some d # rest)) =
         Fold n ext ctx (ConvertToType (Type Integer k) extent)"
  using assms
  by (simp add: FoldOperation_FunctionRef_def FoldOperation_FunctionRef_Integer_def Let_def
      FoldSize_def ArgAt_def)

lemma size_with_dim_constant:
  assumes "GetShape a = Inr (Some shape)"
    and "ToInt64 d = Some dim"
    and "1 \<le> dim" "dim \<le> int (length shape)" "shape ! nat (dim - 1) = Some (ExtentExpr x)"
    and "wrap k x = x"
  shows "Fold (Suc (Suc (Suc n))) ext ctx
           (FunctionRef (Type Integer k) (SpecificIntrinsic ''size'' r) (Some a # Some d # rest)) =
         Inr (Constant (Type Integer k) [IntegerValue x] [], ctx)"
  using size_with_dim [OF assms(1-5)] Fold_ConvertToType_extent [OF assms(6)] by simp

lemma size_dim_out_of_range:
  assumes "GetShape a = Inr (Some shape)"
    and "ToInt64 d = Some dim"
    and "\<not> (1 \<le> dim \<and> dim \<le> int (length shape))"
  shows "Fold (Suc n) ext ctx
           (FunctionRef (Type Integer k) (SpecificIntrinsic ''size'' r) (Some a # Some d # rest)) =
         Inr (FunctionRef (Type Integer k) (SpecificIntrinsic ''size'' r) (Some a # Some d # rest),
              Say (Message False ''size(array,dim=%jd) dimension is out of range for rank-%d array''
                     [IntArg dim, IntArg (int (length shape))]) ctx)"
  using assms
  by (auto simp: FoldOperation_FunctionRef_def FoldOperation_FunctionRef_Integer_def Let_def
      FoldSize_def ArgAt_def)

lemma size_without_dim:
  assumes "GetShape a = Inr (Some shape)"
    and "AllElementsPresent shape = Some extents"
  shows "Fold (Suc n) ext ctx
           (FunctionRef (Type Integer k) (SpecificIntrinsic ''size'' r) (Some a # None # rest)) =
         andThen (Fold n ext ctx (foldl (Multiply SubscriptInteger) (ExtentExpr 1) extents))
           (\<lambda>(product, ctx1). Inr (ConvertToType (Type Integer k) product, ctx1))"
  using assms
  by (simp add: FoldOperation_FunctionRef_def FoldOperation_FunctionRef_Integer_def Let_def
      FoldSize_def ArgAt_def)

lemma AllElementsPresent_AsShape: "AllElementsPresent (AsShape es) = Some (map ExtentExpr es)"
  by (simp add: AsShape_def AllElementsPresent_def list_all_iff comp_def)

lemma size_without_dim_constant:
  assumes "GetShape a = Inr (Some (AsShape es))"
    and "length es < n"
    and "\<forall>i\<le>length es. wrap 8 (prod_list (take i es)) = prod_list (take i es)"
  shows "Fold (Suc n) ext ctx
           (FunctionRef (Type Integer k) (SpecificIntrinsic ''size'' r) (Some a # None # rest)) =
         Inr (ConvertToType (Type Integer k) (ExtentExpr (prod_list es)), ctx)"
  using size_without_dim [OF assms(1) AllElementsPresent_AsShape] product_folds [OF assms(2,3)]
  by simp

lemma size_dim_not_constant:
  assumes "GetShape a = Inr (Some shape)"
    and "ToInt64 d = None"
  shows "Fold (Suc n) ext ctx
           (FunctionRef (Type Integer k) (SpecificIntrinsic ''size'' r) (Some a # Some d # rest)) =
         Inr (FunctionRef (Type Integer k) (SpecificIntrinsic ''size'' r) (Some a # Some d # rest),
              ctx)"
  using assms
  by (simp add: FoldOperation_FunctionRef_def FoldOperation_FunctionRef_Integer_def Let_def
      FoldSize_def ArgAt_def)

text \<open>
  Claim C8.  The loop over the arguments that opens
  \<^verbatim>\<open>FoldOperation(FoldingContext &, FunctionRef<Type<Integer, KIND>> &&)\<close> folds no
  argument, and the \<^verbatim>\<open>size\<close> branch reads \<^verbatim>\<open>DIM=\<close> with \<^verbatim>\<open>ToInt64\<close>, which gives a
  value for a constant only.  For an array \<open>a\<close> of shape \<open>[3, 4]\<close>, \<open>size(a, dim = 1 + 1)\<close>
  is returned as it is, although \<open>1 + 1\<close> folds to \<open>2\<close> and \<open>size(a, dim = 2)\<close> folds to
  the constant \<open>4\<close>.  With \<^verbatim>\<open>DIM=\<close> absent the product of the extents is folded and
  converted afterwards, so \<open>size(a)\<close> of type \<open>INTEGER(4)\<close> folds to a conversion of the
  constant \<open>12\<close> of type \<open>SubscriptInteger\<close>, not to a constant.
\<close>

theorem size_dim_not_folded:
  "Fold (Suc (Suc n)) ext ctx
     (Add Int4 (Constant Int4 [IntegerValue 1] []) (Constant Int4 [IntegerValue 1] [])) =
   Inr (Constant Int4 [IntegerValue 2] [], ctx) \<and>
   Fold (Suc n) ext ctx
     (FunctionRef Int4 (SpecificIntrinsic ''size'' 0)
        [Some (Constant Int4 (replicate 12 (IntegerValue 0)) [3, 4]),
         Some (Add Int4 (Constant Int4 [IntegerValue 1] []) (Constant Int4 [IntegerValue 1] [])),
         None]) =
   Inr (FunctionRef Int4 (SpecificIntrinsic ''size'' 0)
          [Some (Constant Int4 (replicate 12 (IntegerValue 0)) [3, 4]),
           Some (Add Int4 (Constant Int4 [IntegerValue 1] []) (Constant Int4 [IntegerValue 1] [])),
           None],
        ctx) \<and>
   Fold (Suc (Suc (Suc n))) ext ctx
     (FunctionRef Int4 (SpecificIntrinsic ''size'' 0)
        [Some (Constant Int4 (replicate 12 (IntegerValue 0)) [3, 4]),
         Some (Constant Int4 [IntegerValue 2] []), None]) =
   Inr (Constant Int4 [IntegerValue 4] [], ctx) \<and>
   Fold (Suc (Suc (Suc (Suc n)))) ext ctx
     (FunctionRef Int4 (SpecificIntrinsic ''size'' 0)
        [Some (Constant Int4 (replicate 12 (IntegerValue 0)) [3, 4]), None, None]) =
   Inr (Convert Int4 (Constant SubscriptInteger [IntegerValue 12] []), ctx)"
proof (intro conjI)
  let ?a = "Constant Int4 (replicate 12 (IntegerValue 0)) [3, 4]"
  have shape: "GetShape ?a = Inr (Some (AsShape [3, 4]))"
    by simp
  show "Fold (Suc (Suc n)) ext ctx
     (Add Int4 (Constant Int4 [IntegerValue 1] []) (Constant Int4 [IntegerValue 1] [])) =
   Inr (Constant Int4 [IntegerValue 2] [], ctx)"
    by (simp add: FoldOperation_Add_def ApplyElementwise_binary_def OperandsAreConstants_def
        IntegerOperands_def IntegerResult_def AddSigned_def wrap_def bits_def)
  show "Fold (Suc n) ext ctx
     (FunctionRef Int4 (SpecificIntrinsic ''size'' 0)
        [Some ?a,
         Some (Add Int4 (Constant Int4 [IntegerValue 1] []) (Constant Int4 [IntegerValue 1] [])),
         None]) =
   Inr (FunctionRef Int4 (SpecificIntrinsic ''size'' 0)
          [Some ?a,
           Some (Add Int4 (Constant Int4 [IntegerValue 1] []) (Constant Int4 [IntegerValue 1] [])),
           None],
        ctx)"
    by (rule size_dim_not_constant [OF shape]) simp
  show "Fold (Suc (Suc (Suc n))) ext ctx
     (FunctionRef Int4 (SpecificIntrinsic ''size'' 0)
        [Some ?a, Some (Constant Int4 [IntegerValue 2] []), None]) =
   Inr (Constant Int4 [IntegerValue 4] [], ctx)"
    by (rule size_with_dim_constant [OF shape, where dim = 2])
      (simp_all add: AsShape_def wrap_def bits_def)
  have fits: "\<forall>i\<le>length [3, 4 :: int]. wrap 8 (prod_list (take i [3, 4])) = prod_list (take i [3, 4])"
    by (auto simp: le_Suc_eq wrap_def bits_def)
  from size_without_dim_constant [OF shape _ fits, where n = "Suc (Suc (Suc n))" and k = 4
      and ext = ext and ctx = ctx and r = 0 and rest = "[None]"]
  show "Fold (Suc (Suc (Suc (Suc n)))) ext ctx
     (FunctionRef Int4 (SpecificIntrinsic ''size'' 0) [Some ?a, None, None]) =
   Inr (Convert Int4 (Constant SubscriptInteger [IntegerValue 12] []), ctx)"
    by (simp add: ConvertToType_def ExtentExpr_def)
qed

section \<open>Substring designators\<close>





end
